theory Spec2Isabelle
  imports Complex_Main "HOL-Library.AList" "HOL-Library.Sublist"
begin

section \<open>Python exceptions and list indexing\<close>

text \<open>
  Every \<^verbatim>\<open>raise\<close> of the sources, and every failure of a Python primitive the sources
  rely on (subscripting \<^verbatim>\<open>None\<close>, an index out of range, a missing dictionary key or
  attribute, \<^verbatim>\<open>exit\<close>), is a value of \<open>exn\<close>. \<open>NotComputed\<close> is the
  \<^verbatim>\<open>Exception("Receptive field not computed. Run compute function.")\<close> of
  \<^verbatim>\<open>_check\<close>; \<open>Raised\<close> is an exception coming out of a library call or an abstract
  method.
\<close>

datatype exn =
    NotComputed
  | TypeError
  | IndexError
  | KeyError string
  | AttributeError string
  | SystemExit int
  | Raised string

text \<open>\<^verbatim>\<open>xs[i]\<close> for a Python list: a negative index counts from the end.\<close>

definition py_index :: "'a list \<Rightarrow> int \<Rightarrow> exn + 'a" where
  "py_index xs i =
     (if 0 \<le> i \<and> i < int (length xs) then Inr (xs ! nat i)
      else if i < 0 \<and> - int (length xs) \<le> i then Inr (xs ! nat (int (length xs) + i))
      else Inl IndexError)"

text \<open>\<^verbatim>\<open>del xs[i]\<close> for a Python list.\<close>

definition py_del :: "'a list \<Rightarrow> int \<Rightarrow> exn + 'a list" where
  "py_del xs i =
     (if 0 \<le> i \<and> i < int (length xs) then Inr (take (nat i) xs @ drop (Suc (nat i)) xs)
      else if i < 0 \<and> - int (length xs) \<le> i
        then Inr (take (nat (int (length xs) + i)) xs @ drop (Suc (nat (int (length xs) + i))) xs)
      else Inl IndexError)"

section \<open>\<^verbatim>\<open>app/objects/mask_object.py\<close>\<close>

text \<open>
  \<^verbatim>\<open>MaskVisual\<close> has the three attributes its constructor sets; \<open>self_mask\<close> is
  \<^verbatim>\<open>self.mask\<close> and so on. The record is extensible: whatever else an instance may
  carry is its \<open>more\<close> part. A variable that the sources call \<^verbatim>\<open>mask\<close> is \<open>mask'\<close>
  here and below, since \<open>mask\<close> is a constant of the library.
\<close>

record ('m, 'p) mask_visual =
  self_mask :: 'm
  self_opacity_pk :: 'p
  self_smoothness_pk :: 'p

definition mask_visual_init :: "'m \<Rightarrow> 'p \<Rightarrow> 'p \<Rightarrow> ('m, 'p) mask_visual" where
  "mask_visual_init mask' opac_pk smooth_pk =
     \<lparr>self_mask = mask', self_opacity_pk = opac_pk, self_smoothness_pk = smooth_pk\<rparr>"

definition get_visual :: "('m, 'p, 'z) mask_visual_scheme \<Rightarrow> 'm \<times> 'p \<times> 'p" where
  "get_visual self = (self_mask self, self_opacity_pk self, self_smoothness_pk self)"

definition set_visual ::
  "('m, 'p, 'z) mask_visual_scheme \<Rightarrow> 'm \<Rightarrow> 'p \<Rightarrow> 'p \<Rightarrow> ('m, 'p, 'z) mask_visual_scheme" where
  "set_visual self mask' opac_pk smooth_pk =
     self\<lparr>self_mask := mask', self_opacity_pk := opac_pk, self_smoothness_pk := smooth_pk\<rparr>"

section \<open>\<^verbatim>\<open>receptivefield/base.py\<close>: the data\<close>

text \<open>
  Modelled from the spec: \<^verbatim>\<open>receptivefield/types.py\<close> is not among the sources. The
  spec speaks of "simple geometric tuples (width/height, offset, stride)"; the tuples
  below have exactly the fields that \<^verbatim>\<open>base.py\<close> reads (\<^verbatim>\<open>.w\<close>, \<^verbatim>\<open>.h\<close>,
  \<^verbatim>\<open>.c\<close>, \<^verbatim>\<open>.x\<close>, \<^verbatim>\<open>.y\<close>) and the keyword arguments it builds them with. Grid
  coordinates and shapes are Python integers (the code applies \<^verbatim>\<open>//\<close> and \<^verbatim>\<open>%\<close>
  to them). The estimated rectangles are numbers on which the code uses true division
  \<^verbatim>\<open>/\<close>; they are modelled as reals, so rounding of floating-point arithmetic is
  outside this model.
\<close>

datatype grid_point = GridPoint (gp_x: int) (gp_y: int)

datatype grid_shape = GridShape (gs_w: int) (gs_h: int) (gs_c: int)

datatype image_shape = ImageShape (img_w: int) (img_h: int) (img_c: int)

datatype 'a size_wh = Size (sz_w: 'a) (sz_h: 'a)

datatype rf_rect = ReceptiveFieldRect (rect_x: real) (rect_y: real) (rect_w: real) (rect_h: real)

datatype rf_description =
  ReceptiveFieldDescription (rf_offset: "real \<times> real") (rf_stride: "real \<times> real")
    (rf_size: "real size_wh")

datatype feature_map_description =
  FeatureMapDescription (fm_size: "int size_wh") (fm_rf: rf_description)

text \<open>
  The attributes of a \<^verbatim>\<open>ReceptiveField\<close> instance; \<open>self_built\<close> is \<^verbatim>\<open>self._built\<close>
  and so on. An attribute that \<^verbatim>\<open>__init__\<close> sets to \<^verbatim>\<open>None\<close> is an option.
\<close>

record ('mf, 'gf) receptive_field =
  self_model_func :: 'mf
  self_gradient_function :: "'gf option"
  self_input_shape :: "grid_shape option"
  self_output_shapes :: "grid_shape list option"
  self_rf_params :: "rf_description list option"
  self_built :: bool

text \<open>
  What \<^verbatim>\<open>base.py\<close> calls but does not define: the two abstract methods, which a
  subclass supplies and which read the instance, and two functions of the library
  (\<^verbatim>\<open>receptivefield.common\<close>, \<^verbatim>\<open>receptivefield.plotting\<close>) that are not among the
  sources. They are parameters of the model, and each may raise.
\<close>

record ('mf, 'gf, 'a, 'g, 'img) rf_api =
  prepare_gradient_func ::
    "('mf, 'gf) receptive_field \<Rightarrow> 'a \<Rightarrow> exn + ('gf \<times> grid_shape \<times> grid_shape list)"
  get_gradient_from_grid_points ::
    "('mf, 'gf) receptive_field \<Rightarrow> grid_point list \<Rightarrow> real option \<Rightarrow> exn + 'g list"
  estimate_rf_from_gradients :: "'g list \<Rightarrow> exn + rf_rect list"
  plot_receptive_grid ::
    "grid_shape option \<Rightarrow> grid_shape \<Rightarrow> rf_description \<Rightarrow> 'img option \<Rightarrow> bool \<Rightarrow> exn + unit"

text \<open>
  An optional argument of a Python call is an option: \<open>None\<close> when the caller leaves it
  out, so that the default of the method called applies. The abstract
  \<^verbatim>\<open>_get_gradient_from_grid_points\<close> declares \<^verbatim>\<open>intensity: float = 1.0\<close>, but the method
  that runs is the subclass's, with the default (or none) that the subclass gives it: the
  model hands the option to the parameter as it is.

  One call of \<^verbatim>\<open>_get_gradient_from_grid_points\<close> is the points and the intensity it was
  given, if any. The methods that reach it return the calls they made, in order.
\<close>

type_synonym probe = "grid_point list \<times> real option"

section \<open>\<^verbatim>\<open>receptivefield/base.py\<close>: the methods\<close>

definition init :: "'mf \<Rightarrow> ('mf, 'gf) receptive_field" where
  "init model_func =
     \<lparr>self_model_func = model_func, self_gradient_function = None, self_input_shape = None,
      self_output_shapes = None, self_rf_params = None, self_built = False\<rparr>"

definition check :: "('mf, 'gf) receptive_field \<Rightarrow> exn + unit" where
  "check self = (if \<not> self_built self then Inl NotComputed else Inr ())"

definition feature_maps_desc ::
  "('mf, 'gf) receptive_field \<Rightarrow> exn + feature_map_description list" where
  "feature_maps_desc self =
     (case check self of Inl e \<Rightarrow> Inl e | Inr _ \<Rightarrow>
      (case self_output_shapes self of None \<Rightarrow> Inl TypeError | Some shapes \<Rightarrow>
       (case self_rf_params self of None \<Rightarrow> Inl TypeError | Some rfs \<Rightarrow>
          Inr (map (\<lambda>(size, rf). FeatureMapDescription (Size (gs_w size) (gs_h size)) rf)
                 (zip shapes rfs)))))"

definition input_shape :: "('mf, 'gf) receptive_field \<Rightarrow> exn + image_shape" where
  "input_shape self =
     (case check self of Inl e \<Rightarrow> Inl e | Inr _ \<Rightarrow>
      (case self_input_shape self of None \<Rightarrow> Inl (AttributeError ''w'')
       | Some sh \<Rightarrow> Inr (ImageShape (gs_w sh) (gs_h sh) (gs_c sh))))"

definition output_shapes :: "('mf, 'gf) receptive_field \<Rightarrow> exn + int size_wh list" where
  "output_shapes self =
     (case check self of Inl e \<Rightarrow> Inl e | Inr _ \<Rightarrow>
      (case self_output_shapes self of None \<Rightarrow> Inl TypeError
       | Some shapes \<Rightarrow> Inr (map (\<lambda>size. Size (gs_w size) (gs_h size)) shapes)))"

definition num_feature_maps :: "('mf, 'gf) receptive_field \<Rightarrow> exn + nat" where
  "num_feature_maps self =
     (case check self of Inl e \<Rightarrow> Inl e | Inr _ \<Rightarrow>
      (case self_output_shapes self of None \<Rightarrow> Inl TypeError
       | Some shapes \<Rightarrow> Inr (length shapes)))"

definition build_gradient_func ::
  "('mf, 'gf, 'a, 'g, 'img) rf_api \<Rightarrow> ('mf, 'gf) receptive_field \<Rightarrow> 'a
     \<Rightarrow> (exn + unit) \<times> ('mf, 'gf) receptive_field" where
  "build_gradient_func api self args =
     (case prepare_gradient_func api self args of
        Inl e \<Rightarrow> (Inl e, self)
      | Inr (gradient_function, in_shape, out_shapes) \<Rightarrow>
          (Inr (),
           self\<lparr>self_built := True, self_gradient_function := Some gradient_function,
                self_input_shape := Some in_shape, self_output_shapes := Some out_shapes\<rparr>))"

text \<open>
  The grid centre of one feature map (lines 134 to 140): \<^verbatim>\<open>//\<close> and \<^verbatim>\<open>%\<close> by 2 are
  \<open>div\<close> and \<open>mod\<close> on \<open>int\<close>, which round towards minus infinity as Python does.
\<close>

definition map_center :: "grid_shape \<Rightarrow> grid_point \<Rightarrow> grid_point" where
  "map_center output_shape center_offset =
     (let w = gs_w output_shape;
          h = gs_h output_shape;
          cx = (if w mod 2 = 0 then w div 2 - 1 else w div 2);
          cy = (if h mod 2 = 0 then h div 2 - 1 else h div 2)
      in GridPoint (cx + gp_x center_offset) (cy + gp_y center_offset))"

text \<open>
  The loop \<^verbatim>\<open>for fm in range(self.num_feature_maps)\<close> of
  \<^verbatim>\<open>_get_gradient_activation_at_map_center\<close>, over the indices still to visit, with the
  list \<^verbatim>\<open>points\<close> built so far.
\<close>

fun center_loop ::
  "('mf, 'gf) receptive_field \<Rightarrow> grid_point list \<Rightarrow> nat list \<Rightarrow> grid_point list
     \<Rightarrow> exn + grid_point list" where
  "center_loop self center_offsets [] points = Inr points"
| "center_loop self center_offsets (fm # fms) points =
     (case self_output_shapes self of None \<Rightarrow> Inl TypeError | Some shapes \<Rightarrow>
      (case py_index shapes (int fm) of Inl e \<Rightarrow> Inl e | Inr output_shape \<Rightarrow>
       (case py_index center_offsets (int fm) of Inl e \<Rightarrow> Inl e | Inr center_offset \<Rightarrow>
          center_loop self center_offsets fms
            (points @ [map_center output_shape center_offset]))))"

text \<open>
  \<^verbatim>\<open>_get_gradient_activation_at_map_center\<close> is defined in \<^verbatim>\<open>base.py\<close> with the default
  \<^verbatim>\<open>intensity: float = 1\<close>, and passes its intensity on by keyword.
\<close>

definition get_gradient_activation_at_map_center ::
  "('mf, 'gf, 'a, 'g, 'img) rf_api \<Rightarrow> ('mf, 'gf) receptive_field \<Rightarrow> grid_point list
     \<Rightarrow> real option \<Rightarrow> (exn + 'g list) \<times> probe list" where
  "get_gradient_activation_at_map_center api self center_offsets intensity_arg =
     (let intensity = (case intensity_arg of None \<Rightarrow> 1 | Some i \<Rightarrow> i) in
      (case num_feature_maps self of Inl e \<Rightarrow> (Inl e, []) | Inr n \<Rightarrow>
       (case center_loop self center_offsets [0..<n] [] of Inl e \<Rightarrow> (Inl e, [])
        | Inr points \<Rightarrow>
            (get_gradient_from_grid_points api self points (Some intensity),
             [(points, Some intensity)]))))"

text \<open>
  The loop of \<^verbatim>\<open>compute\<close> over \<^verbatim>\<open>zip(rfs_at_point00, rfs_at00, rfs_at11)\<close> (lines 184
  to 205), with \<^verbatim>\<open>self._rf_params\<close> as built so far.
\<close>

definition rf_params_of :: "rf_rect \<Rightarrow> rf_rect \<Rightarrow> rf_rect \<Rightarrow> rf_description" where
  "rf_params_of rf_at_point00 rf_at00 rf_at11 =
     (let x0 = rect_w rf_at_point00 - rect_w rf_at00 / 2;
          y0 = rect_h rf_at_point00 - rect_h rf_at00 / 2;
          dx = rect_x rf_at11 - rect_x rf_at00;
          dy = rect_y rf_at11 - rect_y rf_at00;
          size = Size (rect_w rf_at00) (rect_h rf_at00)
      in ReceptiveFieldDescription (x0, y0) (dx, dy) size)"

fun rf_loop ::
  "(rf_rect \<times> rf_rect \<times> rf_rect) list \<Rightarrow> rf_description list \<Rightarrow> rf_description list" where
  "rf_loop [] rf_params = rf_params"
| "rf_loop ((rf_at_point00, rf_at00, rf_at11) # rest) rf_params =
     rf_loop rest (rf_params @ [rf_params_of rf_at_point00 rf_at00 rf_at11])"

text \<open>
  \<^verbatim>\<open>compute\<close> returns its result (or the exception), the instance as it leaves it, and
  the calls of \<^verbatim>\<open>_get_gradient_from_grid_points\<close> it made. \<^verbatim>\<open>[p] * n\<close> is
  \<open>replicate n p\<close>. It gives no intensity to any of its three calls (lines 165, 171 and
  177). An exception leaves the attributes as they were when it was raised.
\<close>

definition compute ::
  "('mf, 'gf, 'a, 'g, 'img) rf_api \<Rightarrow> ('mf, 'gf) receptive_field \<Rightarrow> 'a
     \<Rightarrow> (exn + feature_map_description list) \<times> ('mf, 'gf) receptive_field \<times> probe list" where
  "compute api self0 args =
     (case build_gradient_func api self0 args of (Inl e, self) \<Rightarrow> (Inl e, self, [])
      | (Inr _, self) \<Rightarrow>
     (case num_feature_maps self of Inl e \<Rightarrow> (Inl e, self, []) | Inr n1 \<Rightarrow>
     (case get_gradient_activation_at_map_center api self (replicate n1 (GridPoint 0 0)) None
           of
        (Inl e, log1) \<Rightarrow> (Inl e, self, log1)
      | (Inr rf_grads00, log1) \<Rightarrow>
     (case estimate_rf_from_gradients api rf_grads00 of Inl e \<Rightarrow> (Inl e, self, log1)
      | Inr rfs_at00 \<Rightarrow>
     (case num_feature_maps self of Inl e \<Rightarrow> (Inl e, self, log1) | Inr n2 \<Rightarrow>
     (case get_gradient_activation_at_map_center api self (replicate n2 (GridPoint 1 1)) None
           of
        (Inl e, log2) \<Rightarrow> (Inl e, self, log1 @ log2)
      | (Inr rf_grads11, log2) \<Rightarrow>
     (case estimate_rf_from_gradients api rf_grads11 of Inl e \<Rightarrow> (Inl e, self, log1 @ log2)
      | Inr rfs_at11 \<Rightarrow>
     (case num_feature_maps self of Inl e \<Rightarrow> (Inl e, self, log1 @ log2) | Inr n3 \<Rightarrow>
     (let points = replicate n3 (GridPoint 0 0);
          log3 = log1 @ log2 @ [(points, None)]
      in
     (case get_gradient_from_grid_points api self points None of
        Inl e \<Rightarrow> (Inl e, self, log3)
      | Inr rf_grads_point00 \<Rightarrow>
     (case estimate_rf_from_gradients api rf_grads_point00 of Inl e \<Rightarrow> (Inl e, self, log3)
      | Inr rfs_at_point00 \<Rightarrow>
     (let self' = self\<lparr>self_rf_params :=
                   Some (rf_loop (zip rfs_at_point00 (zip rfs_at00 rfs_at11)) [])\<rparr>
      in (feature_maps_desc self', self', log3)))))))))))))"

definition plot_rf_grid ::
  "('mf, 'gf, 'a, 'g, 'img) rf_api \<Rightarrow> ('mf, 'gf) receptive_field \<Rightarrow> int \<Rightarrow> 'img option \<Rightarrow> bool
     \<Rightarrow> exn + unit" where
  "plot_rf_grid api self fm_id custom_image plot_naive_rf =
     (case self_output_shapes self of None \<Rightarrow> Inl TypeError | Some shapes \<Rightarrow>
      (case py_index shapes fm_id of Inl e \<Rightarrow> Inl e | Inr output_shape \<Rightarrow>
       (case self_rf_params self of None \<Rightarrow> Inl TypeError | Some rfs \<Rightarrow>
        (case py_index rfs fm_id of Inl e \<Rightarrow> Inl e | Inr rf_params \<Rightarrow>
           plot_receptive_grid api (self_input_shape self) output_shape rf_params
             custom_image plot_naive_rf))))"

section \<open>\<^verbatim>\<open>app/model_controller/segtran_inference.py\<close>\<close>

text \<open>
  The values of configuration options: \<^verbatim>\<open>None\<close>, booleans, integers, strings and lists
  of these (floating-point options are outside this model). \<open>py_eq\<close> is Python's
  \<^verbatim>\<open>==\<close> on them, where \<^verbatim>\<open>True == 1\<close> and \<^verbatim>\<open>False == 0\<close>; \<^verbatim>\<open>!=\<close> is its
  negation.
\<close>

datatype cfgval = CNone | CBool bool | CInt int | CStr string | CList "cfgval list"

fun py_eq :: "cfgval \<Rightarrow> cfgval \<Rightarrow> bool"
  and py_eq_list :: "cfgval list \<Rightarrow> cfgval list \<Rightarrow> bool" where
  "py_eq CNone CNone = True"
| "py_eq (CBool a) (CBool b) = (a = b)"
| "py_eq (CBool a) (CInt b) = ((if a then 1 else 0) = b)"
| "py_eq (CInt a) (CBool b) = (a = (if b then 1 else 0))"
| "py_eq (CInt a) (CInt b) = (a = b)"
| "py_eq (CStr a) (CStr b) = (a = b)"
| "py_eq (CList xs) (CList ys) = py_eq_list xs ys"
| "py_eq _ _ = False"
| "py_eq_list [] [] = True"
| "py_eq_list (x # xs) (y # ys) = (py_eq x y \<and> py_eq_list xs ys)"
| "py_eq_list _ _ = False"

definition py_ne :: "cfgval \<Rightarrow> cfgval \<Rightarrow> bool" where
  "py_ne a b = (\<not> py_eq a b)"

text \<open>
  An \<^verbatim>\<open>argparse.Namespace\<close> is its \<^verbatim>\<open>__dict__\<close>, and so is the \<^verbatim>\<open>args\<close> dictionary
  of a checkpoint: a list of keys with their values, in insertion order, where
  \<open>AList.update\<close> is item assignment and \<open>map_of\<close> is lookup.
\<close>

type_synonym cfg = "(string \<times> cfgval) list"

text \<open>
  The dictionary \<^verbatim>\<open>torch.load\<close> returns, by the keys the function reads. \<open>sd_params\<close>
  is the dictionary itself, as the parameters it is taken for when it has no
  \<^verbatim>\<open>'model'\<close> key. The parameter dictionaries \<open>'p\<close> and the network \<open>'n\<close> belong to
  the deep-learning framework, whose calls are the fields of \<open>torch_api\<close>.
\<close>

record 'p state_dict =
  sd_model :: "'p option"
  sd_args :: "cfg option"
  sd_iter_num :: "int option"
  sd_params :: 'p

record ('n, 'p) torch_api =
  torch_load :: "string \<Rightarrow> cfgval \<Rightarrow> exn + 'p state_dict"
  net_state_dict :: "'n \<Rightarrow> 'p"
  params_update :: "'p \<Rightarrow> 'p \<Rightarrow> 'p"
  net_load_state_dict :: "'n \<Rightarrow> 'p \<Rightarrow> exn + 'n"

definition ignored_keys :: "string list" where
  "ignored_keys =
     [''maxiter'', ''checkpoint_path'', ''model_input_size'', ''t_total'', ''num_workers'',
      ''lr_warmup_ratio'', ''lr_warmup_steps'', ''local_rank'', ''distributed'', ''world_size'',
      ''seed'', ''debug'', ''test_ds_name'', ''test_ds_name'', ''batch_size'', ''dropout_prob'',
      ''orig_patch_size'', ''input_patch_size'', ''D_pool_K'', ''binarize'',
      ''checkpoint_dir'', ''iters'', ''out_origsize'', ''out_softscores'', ''verbose_output'',
      ''gpu'', ''test_interp'', ''do_remove_frag'', ''reload_mask'', ''saveiter'',
      ''job_name'', ''ds_names'', ''train_ds_names'', ''dice_warmup_steps'', ''opt'', ''lr'',
      ''decay'', ''grad_clip'', ''localization_prob'', ''tune_bn_only'', ''MAX_DICE_W'',
      ''deterministic'', ''lr_schedule'', ''out_fpn_do_dropout'', ''randscale'', ''do_affine'',
      ''focus_class'', ''bce_weight'', ''D_scale'', ''orig_input_size'', ''input_scale'',
      ''mean'', ''std'', ''mask_thres'', ''use_pretrained'', ''only_first_linear_in_squeeze'',
      ''perturb_posw_range'']"

definition old_default_keys :: cfg where
  "old_default_keys =
     [(''out_fpn_upsampleD_scheme'', CStr ''interpolate''),
      (''num_recurrences'', CInt 1), (''qk_have_bias'', CBool True)]"

text \<open>Lines 55 to 57: a default is stored in the copy when the key is not in \<^verbatim>\<open>args\<close>.\<close>

fun fill_defaults :: "cfg \<Rightarrow> cfg \<Rightarrow> cfg \<Rightarrow> cfg" where
  "fill_defaults [] args args2 = args2"
| "fill_defaults ((k, v) # defaults) args args2 =
     fill_defaults defaults args
       (if map_of args k = None then AList.update k v args2 else args2)"

text \<open>
  Lines 59 to 63, over the keys of \<^verbatim>\<open>cp_args\<close> still to visit. \<^verbatim>\<open>args2.__dict__[k]\<close>
  raises \<^verbatim>\<open>KeyError\<close> for a key the namespace does not have; \<^verbatim>\<open>exit(0)\<close> raises
  \<^verbatim>\<open>SystemExit\<close>.
\<close>

fun check_args :: "cfg \<Rightarrow> cfg \<Rightarrow> string list \<Rightarrow> exn + unit" where
  "check_args args2 cp_args [] = Inr ()"
| "check_args args2 cp_args (k # ks) =
     (if k \<notin> set ignored_keys then
        (case map_of args2 k of None \<Rightarrow> Inl (KeyError k) | Some v \<Rightarrow>
         (case map_of cp_args k of None \<Rightarrow> Inl (KeyError k) | Some cv \<Rightarrow>
            if py_ne v cv then Inl (SystemExit 0) else check_args args2 cp_args ks))
      else check_args args2 cp_args ks)"

definition load_model_state ::
  "('n, 'p) torch_api \<Rightarrow> 'n \<Rightarrow> cfg \<Rightarrow> string \<Rightarrow> exn + 'n" where
  "load_model_state api net args checkpoint_path =
     (case map_of args ''device'' of None \<Rightarrow> Inl (AttributeError ''device'') | Some device \<Rightarrow>
     (case torch_load api checkpoint_path device of Inl e \<Rightarrow> Inl e | Inr loaded \<Rightarrow>
     (case sd_args loaded of None \<Rightarrow> Inl (KeyError ''args'') | Some stored \<Rightarrow>
     (let state_dict = loaded\<lparr>sd_args := Some (AList.update ''device'' device stored)\<rparr>;
          params = net_state_dict api net
      in
     (case (case sd_model state_dict of
              Some m \<Rightarrow>
                (case sd_iter_num state_dict of None \<Rightarrow> Inl (KeyError ''iter_num'')
                 | Some iter_num \<Rightarrow> Inr (m, sd_args state_dict, iter_num))
            | None \<Rightarrow> Inr (sd_params state_dict, None, 0)) of
        Inl e \<Rightarrow> Inl e
      | Inr (model_state_dict, cp_args, cp_iter_num) \<Rightarrow>
     (let args2 = args in
     (case map_of args ''net'' of None \<Rightarrow> Inl (AttributeError ''net'') | Some net_type \<Rightarrow>
     (case (case cp_args of
              Some cp \<Rightarrow>
                if py_eq net_type (CStr ''segtran'')
                then check_args (fill_defaults old_default_keys args args2) cp (map fst cp)
                else Inr ()
            | None \<Rightarrow> Inr ()) of
        Inl e \<Rightarrow> Inl e
      | Inr _ \<Rightarrow>
          net_load_state_dict api net (params_update api params model_state_dict)))))))))"

section \<open>\<^verbatim>\<open>app/handlers/file_reader.py\<close>: \<^verbatim>\<open>read_mask\<close>\<close>

text \<open>
  Modelled from the spec: \<^verbatim>\<open>objects/nii_object.py\<close>, \<^verbatim>\<open>handlers/vtk_handler.py\<close> and
  \<^verbatim>\<open>utils/config.py\<close> are not among the sources, and the spec describes this code only
  as "a thin sequence of calls into a third-party rendering toolkit". A \<^verbatim>\<open>NiiLabel\<close>
  has the constructor arguments and the attributes \<^verbatim>\<open>read_mask\<close> touches; the
  attribute \<^verbatim>\<open>file\<close> of a \<^verbatim>\<open>NiiObject\<close> is \<open>nii_file\<close>; a fresh
  \<^verbatim>\<open>NiiObject\<close> has no labels; \<^verbatim>\<open>add_surface_rendering(mask, label_idx, value)\<close>
  works on the label at \<^verbatim>\<open>label_idx\<close> and leaves the list of labels otherwise as it is.
  The toolkit's calls and the configuration constants are the fields of \<open>vtk_api\<close>. The
  renderer is the list of actors added to it so far.
\<close>

record ('col, 'ext, 'act) nii_label =
  color :: 'col
  opacity :: real
  smoothness :: real
  extractor :: "'ext option"
  actor :: "'act option"

record ('rd, 'ex, 'col, 'ext, 'act) nii_object =
  nii_file :: "string option"
  reader :: "'rd option"
  extent :: "'ex option"
  labels :: "('col, 'ext, 'act) nii_label list"

record ('act) file_reader =
  self_renderer :: "'act option list option"

record ('mt, 'rd, 'ex, 'col, 'ext, 'act) vtk_api =
  read_volume :: "string \<Rightarrow> 'rd"
  GetDataExtent :: "'rd \<Rightarrow> 'ex"
  GetScalarRange :: "'rd \<Rightarrow> real \<times> real"
  create_mask_extractor :: "('rd, 'ex, 'col, 'ext, 'act) nii_object \<Rightarrow> 'ext"
  add_surface_rendering ::
    "('rd, 'ex, 'col, 'ext, 'act) nii_object \<Rightarrow> nat \<Rightarrow> nat
       \<Rightarrow> ('col, 'ext, 'act) nii_label \<Rightarrow> ('col, 'ext, 'act) nii_label"
  MASK_COLORS :: "'mt \<Rightarrow> 'col list option"
  MASK_OPACITY :: real
  MASK_SMOOTHNESS :: real

text \<open>\<^verbatim>\<open>FileReader.__init__\<close> (line 11): the renderer is not set.\<close>

definition FileReader :: "'act file_reader" where
  "FileReader = \<lparr>self_renderer = None\<rparr>"

definition NiiObject :: "('rd, 'ex, 'col, 'ext, 'act) nii_object" where
  "NiiObject = \<lparr>nii_file = None, reader = None, extent = None, labels = []\<rparr>"

definition NiiLabel :: "'col \<Rightarrow> real \<Rightarrow> real \<Rightarrow> ('col, 'ext, 'act) nii_label" where
  "NiiLabel c opac smooth =
     \<lparr>color = c, opacity = opac, smoothness = smooth, extractor = None, actor = None\<rparr>"

text \<open>\<^verbatim>\<open>int(x)\<close> of a Python float: truncation towards zero.\<close>

definition py_int :: "real \<Rightarrow> int" where
  "py_int x = (if 0 \<le> x then \<lfloor>x\<rfloor> else \<lceil>x\<rceil>)"

text \<open>
  The loop of \<^verbatim>\<open>read_mask\<close> (lines 20 to 25) over the label indices still to visit.
  \<^verbatim>\<open>MASK_COLORS.get(mask_type)\<close> is \<^verbatim>\<open>None\<close> for an unknown mask type, and an
  unset renderer is \<^verbatim>\<open>None\<close>.
\<close>

fun read_mask_loop ::
  "('mt, 'rd, 'ex, 'col, 'ext, 'act) vtk_api \<Rightarrow> 'mt \<Rightarrow> nat list
     \<Rightarrow> ('rd, 'ex, 'col, 'ext, 'act) nii_object \<Rightarrow> 'act file_reader
     \<Rightarrow> (exn + ('rd, 'ex, 'col, 'ext, 'act) nii_object) \<times> 'act file_reader" where
  "read_mask_loop api mask_type [] mask' self = (Inr mask', self)"
| "read_mask_loop api mask_type (label_idx # rest) mask' self =
     (case MASK_COLORS api mask_type of None \<Rightarrow> (Inl TypeError, self) | Some colors \<Rightarrow>
     (case py_index colors (int label_idx) of Inl e \<Rightarrow> (Inl e, self) | Inr c \<Rightarrow>
     (let mask1 = mask'\<lparr>labels := labels mask'
                     @ [NiiLabel c (MASK_OPACITY api) (MASK_SMOOTHNESS api)]\<rparr>
      in
     (case py_index (labels mask1) (int label_idx) of Inl e \<Rightarrow> (Inl e, self) | Inr l \<Rightarrow>
     (let mask2 = mask1\<lparr>labels := (labels mask1)
                     [label_idx := l\<lparr>extractor := Some (create_mask_extractor api mask1)\<rparr>]\<rparr>
      in
     (case py_index (labels mask2) (int label_idx) of Inl e \<Rightarrow> (Inl e, self) | Inr l2 \<Rightarrow>
     (let mask3 = mask2\<lparr>labels := (labels mask2)
                     [label_idx := add_surface_rendering api mask2 label_idx (label_idx + 1) l2]\<rparr>
      in
     (case self_renderer self of None \<Rightarrow> (Inl (AttributeError ''AddActor''), self)
      | Some actors \<Rightarrow>
     (case py_index (labels mask3) (int label_idx) of Inl e \<Rightarrow> (Inl e, self) | Inr l3 \<Rightarrow>
        read_mask_loop api mask_type rest mask3
          (self\<lparr>self_renderer := Some (actors @ [actor l3])\<rparr>))))))))))"

definition read_mask ::
  "('mt, 'rd, 'ex, 'col, 'ext, 'act) vtk_api \<Rightarrow> 'act file_reader \<Rightarrow> string \<Rightarrow> 'mt
     \<Rightarrow> (exn + ('rd, 'ex, 'col, 'ext, 'act) nii_object) \<times> 'act file_reader" where
  "read_mask api self file_name mask_type =
     (let mask0 = NiiObject\<lparr>nii_file := Some file_name\<rparr>;
          mask1 = mask0\<lparr>reader := Some (read_volume api file_name)\<rparr>;
          mask2 = mask1\<lparr>extent := Some (GetDataExtent api (read_volume api file_name))\<rparr>;
          n_labels = py_int (snd (GetScalarRange api (read_volume api file_name)))
      in
     (case read_mask_loop api mask_type [0..<nat n_labels] mask2 self of
        (Inl e, self') \<Rightarrow> (Inl e, self')
      | (Inr mask3, self') \<Rightarrow>
          (case py_del (labels mask3) 2 of Inl e \<Rightarrow> (Inl e, self')
           | Inr ls \<Rightarrow> (Inr (mask3\<lparr>labels := ls\<rparr>), self'))))"

section \<open>Statements about \<^verbatim>\<open>compute\<close>: the probes, the instances, the backends\<close>

text \<open>
  The three probes named by the specification, for given feature-map shapes: every
  feature map's centre, every centre moved by \<open>(1, 1)\<close>, and the grid point \<open>(0, 0)\<close> of
  every feature map. The first two are given the intensity 1; the third is given none.
  This definition follows the specification's words but for that missing intensity; the
  theorems compare it with the calls \<^verbatim>\<open>compute\<close> makes.
\<close>

definition canonical_probes :: "grid_shape list \<Rightarrow> probe list" where
  "canonical_probes shapes =
     [(map (\<lambda>sh. map_center sh (GridPoint 0 0)) shapes, Some 1),
      (map (\<lambda>sh. map_center sh (GridPoint 1 1)) shapes, Some 1),
      (replicate (length shapes) (GridPoint 0 0), None)]"

text \<open>
  The instances a program can hold: a fresh one, and whatever a call of \<^verbatim>\<open>compute\<close>
  leaves behind, whether it returned or raised.
\<close>

inductive reachable ::
  "('mf, 'gf, 'a, 'g, 'img) rf_api \<Rightarrow> ('mf, 'gf) receptive_field \<Rightarrow> bool"
  for api :: "('mf, 'gf, 'a, 'g, 'img) rf_api" where
  reachable_init: "reachable api (init model_func)"
| reachable_compute:
    "reachable api self \<Longrightarrow> compute api self args = (res, self', calls) \<Longrightarrow> reachable api self'"

text \<open>
  Two backends on which the model is run. In \<open>demo_api\<close> there are two feature maps,
  of strides 8 and 16 and sizes 11 and 19: a gradient map is the probed point with the
  index of its feature map, and its rectangle has its centre at stride times the point
  plus 5. \<open>failing_api\<close> is the same with an estimation that raises, as the docstring of
  \<^verbatim>\<open>compute\<close> says it does when the receptive field is bigger than the input.
\<close>

definition demo_api :: "(unit, unit, unit, nat \<times> grid_point, unit) rf_api" where
  "demo_api =
     \<lparr>prepare_gradient_func =
        (\<lambda>self args. Inr ((), GridShape 32 32 3, [GridShape 4 6 8, GridShape 7 3 16])),
      get_gradient_from_grid_points =
        (\<lambda>self points intensity. Inr (zip [0..<length points] points)),
      estimate_rf_from_gradients =
        (\<lambda>grads. Inr (map (\<lambda>(fm, p).
            ReceptiveFieldRect (real_of_int (8 * (int fm + 1) * gp_x p + 5))
              (real_of_int (8 * (int fm + 1) * gp_y p + 5))
              (real_of_int (8 * (int fm + 1) + 3)) (real_of_int (8 * (int fm + 1) + 3))) grads)),
      plot_receptive_grid = (\<lambda>in_shape out_shape rf image naive. Inr ())\<rparr>"

definition failing_api :: "(unit, unit, unit, nat \<times> grid_point, unit) rf_api" where
  "failing_api =
     demo_api\<lparr>estimate_rf_from_gradients := (\<lambda>grads. Inl (Raised ''receptive field too big''))\<rparr>"

text \<open>
  Three more backends. \<open>picky_api\<close> is \<open>demo_api\<close> with a
  \<^verbatim>\<open>_get_gradient_from_grid_points\<close> that raises on every call but the three canonical
  probes of the two feature maps. In \<open>default2_api\<close> the subclass gives that method the
  default \<^verbatim>\<open>intensity=2.0\<close>; a gradient map is the intensity of the impulse behind it,
  and its rectangle is as wide and high as that intensity. \<open>short_api\<close> is \<open>demo_api\<close>
  with an estimation that returns the first rectangle only.
\<close>

definition picky_api :: "(unit, unit, unit, nat \<times> grid_point, unit) rf_api" where
  "picky_api =
     demo_api\<lparr>get_gradient_from_grid_points :=
       (\<lambda>self points intensity.
          if (points, intensity) \<in> set (canonical_probes [GridShape 4 6 8, GridShape 7 3 16])
          then get_gradient_from_grid_points demo_api self points intensity
          else Inl (Raised ''not a canonical probe''))\<rparr>"

definition default2_api :: "(unit, unit, unit, real, unit) rf_api" where
  "default2_api =
     \<lparr>prepare_gradient_func = (\<lambda>self args. Inr ((), GridShape 32 32 3, [GridShape 4 6 8])),
      get_gradient_from_grid_points =
        (\<lambda>self points intensity.
           Inr (map (\<lambda>p. case intensity of None \<Rightarrow> 2 | Some i \<Rightarrow> i) points)),
      estimate_rf_from_gradients =
        (\<lambda>grads. Inr (map (\<lambda>i. ReceptiveFieldRect 0 0 i i) grads)),
      plot_receptive_grid = (\<lambda>in_shape out_shape rf image naive. Inr ())\<rparr>"

definition short_api :: "(unit, unit, unit, nat \<times> grid_point, unit) rf_api" where
  "short_api =
     demo_api\<lparr>estimate_rf_from_gradients :=
       (\<lambda>grads. case estimate_rf_from_gradients demo_api grads of
                   Inl e \<Rightarrow> Inl e | Inr rects \<Rightarrow> Inr (take 1 rects))\<rparr>"

text \<open>
  A toolkit on which \<^verbatim>\<open>read_mask\<close> is run: the reader of a file is the largest
  label in it (4 in \<^verbatim>\<open>tumor.nii\<close>, 6 in \<^verbatim>\<open>big.nii\<close>, 1 elsewhere), five colours
  are configured for the
  mask type \<^verbatim>\<open>tumor\<close>, and the actor of a label is its label value.
\<close>

definition demo_vtk :: "(string, nat, unit, nat, unit, nat) vtk_api" where
  "demo_vtk =
     \<lparr>read_volume = (\<lambda>file_name. if file_name = ''tumor.nii'' then 4
                                   else if file_name = ''big.nii'' then 6 else 1),
      GetDataExtent = (\<lambda>rd. ()),
      GetScalarRange = (\<lambda>rd. (0, real rd)),
      create_mask_extractor = (\<lambda>mask'. ()),
      add_surface_rendering = (\<lambda>mask' label_idx label_value l. l\<lparr>actor := Some label_value\<rparr>),
      MASK_COLORS = (\<lambda>mask_type. if mask_type = ''tumor'' then Some [10, 20, 30, 40, 50] else None),
      MASK_OPACITY = 1,
      MASK_SMOOTHNESS = 500\<rparr>"

text \<open>
  A framework on which \<^verbatim>\<open>load_model_state\<close> is run: a network is its
  parameters, and three checkpoints can be loaded. \<^verbatim>\<open>good.pth\<close> agrees with
  \<open>demo_args\<close> on every key that is not ignored, \<^verbatim>\<open>bad.pth\<close> was trained for another
  number of classes, and \<^verbatim>\<open>new.pth\<close> stores an option that \<open>demo_args\<close> does not
  have.
\<close>

definition demo_args :: cfg where
  "demo_args =
     [(''device'', CStr ''cpu''), (''net'', CStr ''segtran''), (''num_classes'', CInt 4),
      (''maxiter'', CInt 10)]"

definition demo_torch :: "((string \<times> int) list, (string \<times> int) list) torch_api" where
  "demo_torch =
     \<lparr>torch_load = (\<lambda>checkpoint_path device.
        if checkpoint_path = ''good.pth'' then
          Inr \<lparr>sd_model = Some [(''w'', 7)],
               sd_args = Some [(''net'', CStr ''segtran''), (''num_classes'', CInt 4),
                               (''maxiter'', CInt 51000), (''qk_have_bias'', CInt 1),
                               (''device'', CStr ''cuda'')],
               sd_iter_num = Some 51000, sd_params = []\<rparr>
        else if checkpoint_path = ''bad.pth'' then
          Inr \<lparr>sd_model = Some [(''w'', 7)],
               sd_args = Some [(''net'', CStr ''segtran''), (''num_classes'', CInt 2)],
               sd_iter_num = Some 51000, sd_params = []\<rparr>
        else if checkpoint_path = ''new.pth'' then
          Inr \<lparr>sd_model = Some [(''w'', 7)],
               sd_args = Some [(''net'', CStr ''segtran''), (''new_option'', CBool True),
                               (''num_classes'', CInt 4)],
               sd_iter_num = Some 51000, sd_params = []\<rparr>
        else Inl (Raised ''FileNotFoundError'')),
      net_state_dict = (\<lambda>net. net),
      params_update = (\<lambda>params new. fold (\<lambda>(k, v). AList.update k v) new params),
      net_load_state_dict = (\<lambda>net params. Inr params)\<rparr>"

section \<open>Lemmas on the loops and on \<^verbatim>\<open>compute\<close>\<close>

lemma rf_loop_eq:
  "rf_loop xs acc = acc @ map (\<lambda>(p, c, d). rf_params_of p c d) xs"
  by (induction xs acc rule: rf_loop.induct) simp_all

lemma py_index_nat:
  "i < length xs \<Longrightarrow> py_index xs (int i) = Inr (xs ! i)"
  by (simp add: py_index_def)

lemma center_loop_eq:
  assumes "self_output_shapes self = Some shapes"
    and "\<forall>i \<in> set idxs. i < length shapes \<and> i < length offs"
  shows "center_loop self offs idxs pts =
           Inr (pts @ map (\<lambda>i. map_center (shapes ! i) (offs ! i)) idxs)"
  using assms
  by (induction idxs arbitrary: pts) (simp_all add: py_index_nat)

lemma map_upt_replicate:
  "map (\<lambda>i. map_center (shapes ! i) (replicate (length shapes) p ! i)) [0..<length shapes]
     = map (\<lambda>sh. map_center sh p) shapes"
  by (rule nth_equalityI) simp_all

lemma get_center_built:
  assumes "self_built self" and "self_output_shapes self = Some shapes"
  shows "get_gradient_activation_at_map_center api self (replicate (length shapes) p) v =
          (get_gradient_from_grid_points api self (map (\<lambda>sh. map_center sh p) shapes)
             (Some (case v of None \<Rightarrow> 1 | Some i \<Rightarrow> i)),
           [(map (\<lambda>sh. map_center sh p) shapes, Some (case v of None \<Rightarrow> 1 | Some i \<Rightarrow> i))])"
  using assms
  by (simp add: get_gradient_activation_at_map_center_def num_feature_maps_def check_def
      center_loop_eq [where shapes = shapes] map_upt_replicate Let_def)

lemma get_center_offsets:
  assumes "self_built self" and "self_output_shapes self = Some shapes"
    and "length shapes \<le> length center_offsets"
  shows "get_gradient_activation_at_map_center api self center_offsets v =
    (get_gradient_from_grid_points api self
       (map (\<lambda>i. map_center (shapes ! i) (center_offsets ! i)) [0..<length shapes])
       (Some (case v of None \<Rightarrow> 1 | Some i \<Rightarrow> i)),
     [(map (\<lambda>i. map_center (shapes ! i) (center_offsets ! i)) [0..<length shapes],
       Some (case v of None \<Rightarrow> 1 | Some i \<Rightarrow> i))])"
  using assms
  by (simp add: get_gradient_activation_at_map_center_def num_feature_maps_def check_def
      center_loop_eq [where shapes = shapes] Let_def)

lemma build_success:
  assumes "prepare_gradient_func api self0 args = Inr (gf, ish, shapes)"
  shows "build_gradient_func api self0 args =
    (Inr (), self0\<lparr>self_built := True, self_gradient_function := Some gf,
                   self_input_shape := Some ish, self_output_shapes := Some shapes\<rparr>)"
  using assms by (simp add: build_gradient_func_def)

lemma compute_prepare_fails:
  assumes "prepare_gradient_func api self0 args = Inl e"
  shows "compute api self0 args = (Inl e, self0, [])"
  using assms by (simp add: compute_def build_gradient_func_def)

text \<open>
  After a successful \<^verbatim>\<open>_prepare_gradient_func\<close>, \<^verbatim>\<open>compute\<close> is this chain of three probes
  and three estimations, on the instance \<open>self1\<close> that \<^verbatim>\<open>_build_gradient_func\<close> leaves.
\<close>

lemma compute_built:
  assumes prep: "prepare_gradient_func api self0 args = Inr (gf, ish, shapes)"
    and self1: "self1 = self0\<lparr>self_built := True, self_gradient_function := Some gf,
                   self_input_shape := Some ish, self_output_shapes := Some shapes\<rparr>"
  shows "compute api self0 args =
     (case get_gradient_from_grid_points api self1
             (map (\<lambda>sh. map_center sh (GridPoint 0 0)) shapes) (Some 1) of
        Inl e \<Rightarrow> (Inl e, self1, take 1 (canonical_probes shapes))
      | Inr rf_grads00 \<Rightarrow>
     (case estimate_rf_from_gradients api rf_grads00 of
        Inl e \<Rightarrow> (Inl e, self1, take 1 (canonical_probes shapes))
      | Inr rfs_at00 \<Rightarrow>
     (case get_gradient_from_grid_points api self1
             (map (\<lambda>sh. map_center sh (GridPoint 1 1)) shapes) (Some 1) of
        Inl e \<Rightarrow> (Inl e, self1, take 2 (canonical_probes shapes))
      | Inr rf_grads11 \<Rightarrow>
     (case estimate_rf_from_gradients api rf_grads11 of
        Inl e \<Rightarrow> (Inl e, self1, take 2 (canonical_probes shapes))
      | Inr rfs_at11 \<Rightarrow>
     (case get_gradient_from_grid_points api self1
             (replicate (length shapes) (GridPoint 0 0)) None of
        Inl e \<Rightarrow> (Inl e, self1, canonical_probes shapes)
      | Inr rf_grads_point00 \<Rightarrow>
     (case estimate_rf_from_gradients api rf_grads_point00 of
        Inl e \<Rightarrow> (Inl e, self1, canonical_probes shapes)
      | Inr rfs_at_point00 \<Rightarrow>
         (feature_maps_desc (self1\<lparr>self_rf_params := Some (map (\<lambda>(p, c, d). rf_params_of p c d)
                  (zip rfs_at_point00 (zip rfs_at00 rfs_at11)))\<rparr>),
          self1\<lparr>self_rf_params := Some (map (\<lambda>(p, c, d). rf_params_of p c d)
                  (zip rfs_at_point00 (zip rfs_at00 rfs_at11)))\<rparr>,
          canonical_probes shapes)))))))"
proof -
  have b: "self_built self1" and o: "self_output_shapes self1 = Some shapes"
    by (simp_all add: self1)
  have n: "num_feature_maps self1 = Inr (length shapes)"
    using b o by (simp add: num_feature_maps_def check_def)
  have bg: "build_gradient_func api self0 args = (Inr (), self1)"
    using build_success [OF prep] self1 by simp
  show ?thesis
    unfolding compute_def
    by (simp add: bg n get_center_built [OF b o] rf_loop_eq canonical_probes_def Let_def
        split: sum.splits)
qed

lemma compute_success:
  assumes prep: "prepare_gradient_func api self0 args = Inr (gf, ish, shapes)"
    and self1: "self1 = self0\<lparr>self_built := True, self_gradient_function := Some gf,
                   self_input_shape := Some ish, self_output_shapes := Some shapes\<rparr>"
    and g00: "get_gradient_from_grid_points api self1
                (map (\<lambda>sh. map_center sh (GridPoint 0 0)) shapes) (Some 1) = Inr rf_grads00"
    and e00: "estimate_rf_from_gradients api rf_grads00 = Inr rfs_at00"
    and g11: "get_gradient_from_grid_points api self1
                (map (\<lambda>sh. map_center sh (GridPoint 1 1)) shapes) (Some 1) = Inr rf_grads11"
    and e11: "estimate_rf_from_gradients api rf_grads11 = Inr rfs_at11"
    and gp: "get_gradient_from_grid_points api self1
                (replicate (length shapes) (GridPoint 0 0)) None = Inr rf_grads_point00"
    and ep: "estimate_rf_from_gradients api rf_grads_point00 = Inr rfs_at_point00"
    and rfs: "rfs = map (\<lambda>(p, c, d). rf_params_of p c d)
                  (zip rfs_at_point00 (zip rfs_at00 rfs_at11))"
  shows "compute api self0 args =
    (Inr (map (\<lambda>(size, rf). FeatureMapDescription (Size (gs_w size) (gs_h size)) rf)
            (zip shapes rfs)),
     self1\<lparr>self_rf_params := Some rfs\<rparr>, canonical_probes shapes)"
proof -
  have fd: "feature_maps_desc (self1\<lparr>self_rf_params := Some rfs\<rparr>) =
     Inr (map (\<lambda>(size, rf). FeatureMapDescription (Size (gs_w size) (gs_h size)) rf)
            (zip shapes rfs))"
    by (simp add: self1 feature_maps_desc_def check_def)
  show ?thesis
    unfolding compute_built [OF prep self1]
    by (simp add: g00 e00 g11 e11 gp ep fd flip: rfs)
qed

text \<open>
  Conversely, \<^verbatim>\<open>compute\<close> returns only when the gradient function was prepared and
  each of the three probes and estimations succeeded: the hypotheses of
  \<open>compute_success\<close> hold in every run that returns.
\<close>

lemma compute_returns_only_if:
  assumes "compute api self0 args = (Inr fms, self', calls)"
  shows "\<exists>gf ish shapes rf_grads00 rfs_at00 rf_grads11 rfs_at11 rf_grads_point00 rfs_at_point00.
      prepare_gradient_func api self0 args = Inr (gf, ish, shapes)
    \<and> get_gradient_from_grid_points api
          (self0\<lparr>self_built := True, self_gradient_function := Some gf,
                 self_input_shape := Some ish, self_output_shapes := Some shapes\<rparr>)
          (map (\<lambda>sh. map_center sh (GridPoint 0 0)) shapes) (Some 1) = Inr rf_grads00
    \<and> estimate_rf_from_gradients api rf_grads00 = Inr rfs_at00
    \<and> get_gradient_from_grid_points api
          (self0\<lparr>self_built := True, self_gradient_function := Some gf,
                 self_input_shape := Some ish, self_output_shapes := Some shapes\<rparr>)
          (map (\<lambda>sh. map_center sh (GridPoint 1 1)) shapes) (Some 1) = Inr rf_grads11
    \<and> estimate_rf_from_gradients api rf_grads11 = Inr rfs_at11
    \<and> get_gradient_from_grid_points api
          (self0\<lparr>self_built := True, self_gradient_function := Some gf,
                 self_input_shape := Some ish, self_output_shapes := Some shapes\<rparr>)
          (replicate (length shapes) (GridPoint 0 0)) None = Inr rf_grads_point00
    \<and> estimate_rf_from_gradients api rf_grads_point00 = Inr rfs_at_point00"
proof (cases "prepare_gradient_func api self0 args")
  case (Inl e)
  then show ?thesis using assms by (simp add: compute_prepare_fails)
next
  case (Inr t)
  then obtain gf ish shapes where t: "t = (gf, ish, shapes)" by (cases t) auto
  have p: "prepare_gradient_func api self0 args = Inr (gf, ish, shapes)"
    using Inr t by simp
  show ?thesis
    using assms unfolding compute_built [OF p refl]
    by (auto simp: p split: sum.splits)
qed

lemma compute_log_prefix:
  assumes "prepare_gradient_func api self0 args = Inr (gf, ish, shapes)"
  shows "prefix (snd (snd (compute api self0 args))) (canonical_probes shapes)"
  by (simp add: compute_built [OF assms refl] take_is_prefix split: sum.splits)

lemma compute_returns_desc:
  assumes "compute api self0 args = (Inr fms, self', calls)"
  shows "feature_maps_desc self' = Inr fms"
proof (cases "prepare_gradient_func api self0 args")
  case (Inl e)
  then show ?thesis using assms by (simp add: compute_prepare_fails)
next
  case (Inr t)
  then obtain gf ish shapes where t: "t = (gf, ish, shapes)" by (cases t) auto
  have p: "prepare_gradient_func api self0 args = Inr (gf, ish, shapes)"
    using Inr t by simp
  show ?thesis
    using assms unfolding compute_built [OF p refl]
    by (auto split: sum.splits)
qed

lemma compute_success_state:
  assumes "compute api self0 args = (Inr fms, self', calls)"
  shows "self_built self' \<and> self_input_shape self' \<noteq> None
    \<and> self_output_shapes self' \<noteq> None \<and> self_rf_params self' \<noteq> None"
proof (cases "prepare_gradient_func api self0 args")
  case (Inl e)
  then show ?thesis using assms by (simp add: compute_prepare_fails)
next
  case (Inr t)
  then obtain gf ish shapes where t: "t = (gf, ish, shapes)" by (cases t) auto
  have p: "prepare_gradient_func api self0 args = Inr (gf, ish, shapes)"
    using Inr t by simp
  show ?thesis
    using assms unfolding compute_built [OF p refl]
    by (auto split: sum.splits)
qed

lemma compute_keeps_shapes:
  assumes c: "compute api self0 args = (res, self', calls)"
    and inv: "self_built self0 \<Longrightarrow>
               self_input_shape self0 \<noteq> None \<and> self_output_shapes self0 \<noteq> None"
    and b: "self_built self'"
  shows "self_input_shape self' \<noteq> None \<and> self_output_shapes self' \<noteq> None"
proof (cases "prepare_gradient_func api self0 args")
  case (Inl e)
  then have "self' = self0" using c by (simp add: compute_prepare_fails)
  then show ?thesis using inv b by simp
next
  case (Inr t)
  then obtain gf ish shapes where t: "t = (gf, ish, shapes)" by (cases t) auto
  have p: "prepare_gradient_func api self0 args = Inr (gf, ish, shapes)"
    using Inr t by simp
  show ?thesis
    using c unfolding compute_built [OF p refl]
    by (auto split: sum.splits)
qed

lemma reachable_built:
  assumes "reachable api self" and "self_built self"
  shows "self_input_shape self \<noteq> None \<and> self_output_shapes self \<noteq> None"
  using assms
proof (induction rule: reachable.induct)
  case (reachable_init model_func)
  then show ?case by (simp add: init_def)
next
  case (reachable_compute self args res self' calls)
  show ?case
    by (rule compute_keeps_shapes [OF reachable_compute.hyps(2)])
      (use reachable_compute.IH reachable_compute.prems in simp_all)
qed

section \<open>The backends, evaluated\<close>

lemma upt2: "[0..<2] = [0, Suc 0]"
  by (simp add: upt_rec)

lemma demo_prepare:
  "prepare_gradient_func demo_api (init ()) () =
     Inr ((), GridShape 32 32 3, [GridShape 4 6 8, GridShape 7 3 16])"
  by (simp add: demo_api_def)

lemma demo_grads00:
  "get_gradient_from_grid_points demo_api
     ((init ())\<lparr>self_built := True, self_gradient_function := Some (),
        self_input_shape := Some (GridShape 32 32 3),
        self_output_shapes := Some [GridShape 4 6 8, GridShape 7 3 16]\<rparr>)
     (map (\<lambda>sh. map_center sh (GridPoint 0 0)) [GridShape 4 6 8, GridShape 7 3 16]) (Some 1) =
   Inr [(0, GridPoint 1 2), (1, GridPoint 3 1)]"
  by (simp add: demo_api_def map_center_def upt2 numeral_2_eq_2)

lemma demo_rects00:
  "estimate_rf_from_gradients demo_api [(0, GridPoint 1 2), (1, GridPoint 3 1)] =
     Inr [ReceptiveFieldRect 13 21 11 11, ReceptiveFieldRect 53 21 19 19]"
  by (simp add: demo_api_def)

lemma demo_grads11:
  "get_gradient_from_grid_points demo_api
     ((init ())\<lparr>self_built := True, self_gradient_function := Some (),
        self_input_shape := Some (GridShape 32 32 3),
        self_output_shapes := Some [GridShape 4 6 8, GridShape 7 3 16]\<rparr>)
     (map (\<lambda>sh. map_center sh (GridPoint 1 1)) [GridShape 4 6 8, GridShape 7 3 16]) (Some 1) =
   Inr [(0, GridPoint 2 3), (1, GridPoint 4 2)]"
  by (simp add: demo_api_def map_center_def upt2 numeral_2_eq_2)

lemma demo_rects11:
  "estimate_rf_from_gradients demo_api [(0, GridPoint 2 3), (1, GridPoint 4 2)] =
     Inr [ReceptiveFieldRect 21 29 11 11, ReceptiveFieldRect 69 37 19 19]"
  by (simp add: demo_api_def)

lemma demo_grads_point00:
  "get_gradient_from_grid_points demo_api
     ((init ())\<lparr>self_built := True, self_gradient_function := Some (),
        self_input_shape := Some (GridShape 32 32 3),
        self_output_shapes := Some [GridShape 4 6 8, GridShape 7 3 16]\<rparr>)
     (replicate (length [GridShape 4 6 8, GridShape 7 3 16]) (GridPoint 0 0)) None =
   Inr [(0, GridPoint 0 0), (1, GridPoint 0 0)]"
  by (simp add: demo_api_def upt2 numeral_2_eq_2)

lemma demo_rects_point00:
  "estimate_rf_from_gradients demo_api [(0, GridPoint 0 0), (1, GridPoint 0 0)] =
     Inr [ReceptiveFieldRect 5 5 11 11, ReceptiveFieldRect 5 5 19 19]"
  by (simp add: demo_api_def)

lemma demo_compute:
  "compute demo_api (init ()) () =
     (Inr [FeatureMapDescription (Size 4 6)
             (ReceptiveFieldDescription (11/2, 11/2) (8, 8) (Size 11 11)),
           FeatureMapDescription (Size 7 3)
             (ReceptiveFieldDescription (19/2, 19/2) (16, 16) (Size 19 19))],
      \<lparr>self_model_func = (), self_gradient_function = Some (),
       self_input_shape = Some (GridShape 32 32 3),
       self_output_shapes = Some [GridShape 4 6 8, GridShape 7 3 16],
       self_rf_params = Some [ReceptiveFieldDescription (11/2, 11/2) (8, 8) (Size 11 11),
                              ReceptiveFieldDescription (19/2, 19/2) (16, 16) (Size 19 19)],
       self_built = True\<rparr>,
      [([GridPoint 1 2, GridPoint 3 1], Some 1), ([GridPoint 2 3, GridPoint 4 2], Some 1),
       ([GridPoint 0 0, GridPoint 0 0], None)])"
proof -
  have p: "prepare_gradient_func demo_api (init ()) () =
             Inr ((), GridShape 32 32 3, [GridShape 4 6 8, GridShape 7 3 16])"
    by (simp add: demo_api_def)
  show ?thesis
    unfolding compute_built [OF p refl]
    by (simp add: canonical_probes_def map_center_def
        feature_maps_desc_def check_def rf_params_of_def init_def demo_api_def upt2
        numeral_2_eq_2)
qed

lemma failing_compute:
  "compute failing_api (init ()) () =
     (Inl (Raised ''receptive field too big''),
      \<lparr>self_model_func = (), self_gradient_function = Some (),
       self_input_shape = Some (GridShape 32 32 3),
       self_output_shapes = Some [GridShape 4 6 8, GridShape 7 3 16],
       self_rf_params = None, self_built = True\<rparr>,
      [([GridPoint 1 2, GridPoint 3 1], Some 1)])"
proof -
  have p: "prepare_gradient_func failing_api (init ()) () =
             Inr ((), GridShape 32 32 3, [GridShape 4 6 8, GridShape 7 3 16])"
    by (simp add: failing_api_def demo_api_def)
  show ?thesis
    unfolding compute_built [OF p refl]
    by (simp add: canonical_probes_def map_center_def init_def failing_api_def demo_api_def
        upt2 numeral_2_eq_2)
qed

lemma default2_compute:
  "compute default2_api (init ()) () =
     (Inr [FeatureMapDescription (Size 4 6)
             (ReceptiveFieldDescription (3/2, 3/2) (0, 0) (Size 1 1))],
      \<lparr>self_model_func = (), self_gradient_function = Some (),
       self_input_shape = Some (GridShape 32 32 3),
       self_output_shapes = Some [GridShape 4 6 8],
       self_rf_params = Some [ReceptiveFieldDescription (3/2, 3/2) (0, 0) (Size 1 1)],
       self_built = True\<rparr>,
      [([GridPoint 1 2], Some 1), ([GridPoint 2 3], Some 1), ([GridPoint 0 0], None)])"
proof -
  have p: "prepare_gradient_func default2_api (init ()) () =
             Inr ((), GridShape 32 32 3, [GridShape 4 6 8])"
    by (simp add: default2_api_def)
  show ?thesis
    unfolding compute_built [OF p refl]
    by (simp add: canonical_probes_def map_center_def
        feature_maps_desc_def check_def rf_params_of_def init_def default2_api_def)
qed

lemma upt6: "[0..<6] = [0, 1, 2, 3, 4, 5]"
  by (simp add: upt_rec)

lemma demo_reachable: "reachable demo_api (fst (snd (compute demo_api (init ()) ())))"
  by (rule reachable_compute [OF reachable_init, of demo_api "()" "()"
        "fst (compute demo_api (init ()) ())" _ "snd (snd (compute demo_api (init ()) ()))"])
     simp

section \<open>Properties of \<^verbatim>\<open>ReceptiveField\<close>\<close>

text \<open>
  Claim C1. When the gradient function is prepared and the three probes and their
  estimations succeed, \<^verbatim>\<open>compute\<close> returns, and the description of feature map \<open>fm\<close>
  is closed-form arithmetic on the three rectangles estimated for it: the offset is
  \<open>(rf_at_point00.w - rf_at00.w / 2, rf_at_point00.h - rf_at00.h / 2)\<close>, the stride is
  \<open>(rf_at11.x - rf_at00.x, rf_at11.y - rf_at00.y)\<close> and the size is
  \<open>(rf_at00.w, rf_at00.h)\<close>, where \<open>rfs_at00\<close>, \<open>rfs_at11\<close> and \<open>rfs_at_point00\<close> are
  estimated from the gradients at the grid centres, at the centres moved by \<open>(1, 1)\<close>
  and at the grid points \<open>(0, 0)\<close>. There are as many descriptions as the shortest of
  the four lists allows.
\<close>

theorem compute_closed_form:
  assumes "prepare_gradient_func api self0 args = Inr (gf, ish, shapes)"
    and "self1 = self0\<lparr>self_built := True, self_gradient_function := Some gf,
                   self_input_shape := Some ish, self_output_shapes := Some shapes\<rparr>"
    and "get_gradient_from_grid_points api self1
           (map (\<lambda>sh. map_center sh (GridPoint 0 0)) shapes) (Some 1) = Inr rf_grads00"
    and "estimate_rf_from_gradients api rf_grads00 = Inr rfs_at00"
    and "get_gradient_from_grid_points api self1
           (map (\<lambda>sh. map_center sh (GridPoint 1 1)) shapes) (Some 1) = Inr rf_grads11"
    and "estimate_rf_from_gradients api rf_grads11 = Inr rfs_at11"
    and "get_gradient_from_grid_points api self1
           (replicate (length shapes) (GridPoint 0 0)) None = Inr rf_grads_point00"
    and "estimate_rf_from_gradients api rf_grads_point00 = Inr rfs_at_point00"
  shows "\<exists>fms. fst (compute api self0 args) = Inr fms
    \<and> length fms =
        min (length shapes) (min (length rfs_at_point00) (min (length rfs_at00) (length rfs_at11)))
    \<and> (\<forall>fm < length fms.
          fm_rf (fms ! fm) =
            ReceptiveFieldDescription
              (rect_w (rfs_at_point00 ! fm) - rect_w (rfs_at00 ! fm) / 2,
               rect_h (rfs_at_point00 ! fm) - rect_h (rfs_at00 ! fm) / 2)
              (rect_x (rfs_at11 ! fm) - rect_x (rfs_at00 ! fm),
               rect_y (rfs_at11 ! fm) - rect_y (rfs_at00 ! fm))
              (Size (rect_w (rfs_at00 ! fm)) (rect_h (rfs_at00 ! fm))))"
  unfolding compute_success [OF assms refl]
  by (simp add: rf_params_of_def)

theorem compute_closed_form_witness:
  "\<exists>fms. fst (compute demo_api (init ()) ()) = Inr fms
    \<and> length fms = 2
    \<and> fm_rf (fms ! 0) = ReceptiveFieldDescription (11 - 11 / 2, 11 - 11 / 2)
                           (21 - 13, 29 - 21) (Size 11 11)
    \<and> fm_rf (fms ! 1) = ReceptiveFieldDescription (19 - 19 / 2, 19 - 19 / 2)
                           (69 - 53, 37 - 21) (Size 19 19)"
proof -
  from compute_closed_form [OF demo_prepare refl demo_grads00 demo_rects00 demo_grads11 demo_rects11
      demo_grads_point00 demo_rects_point00]
  show ?thesis
    by (auto simp: numeral_2_eq_2)
qed

text \<open>
  Claim C2, as stated, fails in its "intensity 1.0": \<^verbatim>\<open>compute\<close> gives the third
  probe no intensity (lines 177 to 179), so the default of the subclass's
  \<^verbatim>\<open>_get_gradient_from_grid_points\<close> applies. With a subclass whose default is 2.0 the
  gradient maps at the grid points \<open>(0, 0)\<close> are those of an impulse of intensity 2, not
  of the unit impulse, and the offsets \<^verbatim>\<open>compute\<close> returns are computed from them.
\<close>

theorem compute_third_probe_intensity_counterexample:
  "snd (snd (compute default2_api (init ()) ())) =
     [([GridPoint 1 2], Some 1), ([GridPoint 2 3], Some 1), ([GridPoint 0 0], None)]
   \<and> get_gradient_from_grid_points default2_api
       (fst (snd (compute default2_api (init ()) ()))) [GridPoint 0 0] None = Inr [2]
   \<and> get_gradient_from_grid_points default2_api
       (fst (snd (compute default2_api (init ()) ()))) [GridPoint 0 0] (Some 1) = Inr [1]
   \<and> fst (compute default2_api (init ()) ()) =
       Inr [FeatureMapDescription (Size 4 6)
              (ReceptiveFieldDescription (2 - 1 / 2, 2 - 1 / 2) (0, 0) (Size 1 1))]"
  by (simp add: default2_compute) (simp add: default2_api_def)

text \<open>
  Claim C2, amended. \<^verbatim>\<open>compute\<close> obtains gradient maps from the three canonical
  probes and from no other: with no gradient function prepared it makes no call;
  otherwise its calls are an initial part of the three canonical probes (the centres and
  the centres moved by \<open>(1, 1)\<close>, each with intensity 1, and the grid points \<open>(0, 0)\<close>
  with no intensity given, so with the default of the implementing method). When it
  returns, it has made exactly these three calls, each returned gradient maps, and what
  it stores is computed from the estimations of these maps. Its whole outcome is the
  same for any other backend that prepares and estimates alike and answers these three
  calls alike, whatever that backend answers to any other call.
\<close>

theorem compute_probes_canonical:
  fixes api :: "('mf, 'gf, 'a, 'g, 'img) rf_api"
  shows "(\<forall>e. prepare_gradient_func api self0 args = Inl e \<longrightarrow>
        compute api self0 args = (Inl e, self0, []))
   \<and> (\<forall>gf ish shapes self1.
        prepare_gradient_func api self0 args = Inr (gf, ish, shapes)
        \<and> self1 = self0\<lparr>self_built := True, self_gradient_function := Some gf,
                     self_input_shape := Some ish, self_output_shapes := Some shapes\<rparr> \<longrightarrow>
        prefix (snd (snd (compute api self0 args))) (canonical_probes shapes)
      \<and> (\<forall>fms self' calls. compute api self0 args = (Inr fms, self', calls) \<longrightarrow>
            calls = canonical_probes shapes
          \<and> (\<exists>rf_grads00 rfs_at00 rf_grads11 rfs_at11 rf_grads_point00 rfs_at_point00.
                get_gradient_from_grid_points api self1
                  (map (\<lambda>sh. map_center sh (GridPoint 0 0)) shapes) (Some 1) = Inr rf_grads00
              \<and> estimate_rf_from_gradients api rf_grads00 = Inr rfs_at00
              \<and> get_gradient_from_grid_points api self1
                  (map (\<lambda>sh. map_center sh (GridPoint 1 1)) shapes) (Some 1) = Inr rf_grads11
              \<and> estimate_rf_from_gradients api rf_grads11 = Inr rfs_at11
              \<and> get_gradient_from_grid_points api self1
                  (replicate (length shapes) (GridPoint 0 0)) None = Inr rf_grads_point00
              \<and> estimate_rf_from_gradients api rf_grads_point00 = Inr rfs_at_point00
              \<and> self_rf_params self' =
                  Some (map (\<lambda>(p, c, d). rf_params_of p c d)
                          (zip rfs_at_point00 (zip rfs_at00 rfs_at11)))))
      \<and> (\<forall>api' :: ('mf, 'gf, 'a, 'g, 'img) rf_api.
            prepare_gradient_func api' self0 args = prepare_gradient_func api self0 args
            \<and> estimate_rf_from_gradients api' = estimate_rf_from_gradients api
            \<and> (\<forall>(points, intensity) \<in> set (canonical_probes shapes).
                  get_gradient_from_grid_points api' self1 points intensity =
                  get_gradient_from_grid_points api self1 points intensity) \<longrightarrow>
            compute api' self0 args = compute api self0 args))"
proof (intro conjI allI impI)
  fix e assume "prepare_gradient_func api self0 args = Inl e"
  then show "compute api self0 args = (Inl e, self0, [])"
    by (rule compute_prepare_fails)
next
  fix gf ish shapes self1
  assume a: "prepare_gradient_func api self0 args = Inr (gf, ish, shapes)
        \<and> self1 = self0\<lparr>self_built := True, self_gradient_function := Some gf,
                     self_input_shape := Some ish, self_output_shapes := Some shapes\<rparr>"
  then show "prefix (snd (snd (compute api self0 args))) (canonical_probes shapes)"
    by (simp add: compute_log_prefix)
next
  fix gf ish shapes self1 fms self' calls
  assume a: "prepare_gradient_func api self0 args = Inr (gf, ish, shapes)
        \<and> self1 = self0\<lparr>self_built := True, self_gradient_function := Some gf,
                     self_input_shape := Some ish, self_output_shapes := Some shapes\<rparr>"
    and c: "compute api self0 args = (Inr fms, self', calls)"
  from a have p: "prepare_gradient_func api self0 args = Inr (gf, ish, shapes)"
    and s: "self1 = self0\<lparr>self_built := True, self_gradient_function := Some gf,
                     self_input_shape := Some ish, self_output_shapes := Some shapes\<rparr>"
    by simp_all
  from c show "calls = canonical_probes shapes"
    unfolding compute_built [OF p s] by (auto split: sum.splits)
  from c show "\<exists>rf_grads00 rfs_at00 rf_grads11 rfs_at11 rf_grads_point00 rfs_at_point00.
                get_gradient_from_grid_points api self1
                  (map (\<lambda>sh. map_center sh (GridPoint 0 0)) shapes) (Some 1) = Inr rf_grads00
              \<and> estimate_rf_from_gradients api rf_grads00 = Inr rfs_at00
              \<and> get_gradient_from_grid_points api self1
                  (map (\<lambda>sh. map_center sh (GridPoint 1 1)) shapes) (Some 1) = Inr rf_grads11
              \<and> estimate_rf_from_gradients api rf_grads11 = Inr rfs_at11
              \<and> get_gradient_from_grid_points api self1
                  (replicate (length shapes) (GridPoint 0 0)) None = Inr rf_grads_point00
              \<and> estimate_rf_from_gradients api rf_grads_point00 = Inr rfs_at_point00
              \<and> self_rf_params self' =
                  Some (map (\<lambda>(p, c, d). rf_params_of p c d)
                          (zip rfs_at_point00 (zip rfs_at00 rfs_at11)))"
    unfolding compute_built [OF p s] by (auto split: sum.splits)
next
  fix gf ish shapes self1 and api' :: "('mf, 'gf, 'a, 'g, 'img) rf_api"
  assume a: "prepare_gradient_func api self0 args = Inr (gf, ish, shapes)
        \<and> self1 = self0\<lparr>self_built := True, self_gradient_function := Some gf,
                     self_input_shape := Some ish, self_output_shapes := Some shapes\<rparr>"
    and b: "prepare_gradient_func api' self0 args = prepare_gradient_func api self0 args
            \<and> estimate_rf_from_gradients api' = estimate_rf_from_gradients api
            \<and> (\<forall>(points, intensity) \<in> set (canonical_probes shapes).
                  get_gradient_from_grid_points api' self1 points intensity =
                  get_gradient_from_grid_points api self1 points intensity)"
  from a have p: "prepare_gradient_func api self0 args = Inr (gf, ish, shapes)"
    and s: "self1 = self0\<lparr>self_built := True, self_gradient_function := Some gf,
                     self_input_shape := Some ish, self_output_shapes := Some shapes\<rparr>"
    by simp_all
  from b p have p': "prepare_gradient_func api' self0 args = Inr (gf, ish, shapes)"
    by simp
  from b have e: "estimate_rf_from_gradients api' = estimate_rf_from_gradients api"
    and g: "get_gradient_from_grid_points api' self1
              (map (\<lambda>sh. map_center sh (GridPoint 0 0)) shapes) (Some 1) =
            get_gradient_from_grid_points api self1
              (map (\<lambda>sh. map_center sh (GridPoint 0 0)) shapes) (Some 1)"
      "get_gradient_from_grid_points api' self1
              (map (\<lambda>sh. map_center sh (GridPoint 1 1)) shapes) (Some 1) =
            get_gradient_from_grid_points api self1
              (map (\<lambda>sh. map_center sh (GridPoint 1 1)) shapes) (Some 1)"
      "get_gradient_from_grid_points api' self1
              (replicate (length shapes) (GridPoint 0 0)) None =
            get_gradient_from_grid_points api self1
              (replicate (length shapes) (GridPoint 0 0)) None"
    by (simp_all add: canonical_probes_def)
  show "compute api' self0 args = compute api self0 args"
    unfolding compute_built [OF p s] compute_built [OF p' s] e g
    by (rule refl)
qed

theorem compute_probes_canonical_witness:
  "snd (snd (compute demo_api (init ()) ())) =
     [([GridPoint 1 2, GridPoint 3 1], Some 1), ([GridPoint 2 3, GridPoint 4 2], Some 1),
      ([GridPoint 0 0, GridPoint 0 0], None)]
   \<and> compute picky_api (init ()) () = compute demo_api (init ()) ()"
proof -
  let ?shapes = "[GridShape 4 6 8, GridShape 7 3 16]"
  let ?self1 = "(init ())\<lparr>self_built := True, self_gradient_function := Some (),
       self_input_shape := Some (GridShape 32 32 3),
       self_output_shapes := Some ?shapes\<rparr> :: (unit, unit) receptive_field"
  have pre: "prepare_gradient_func demo_api (init ()) () = Inr ((), GridShape 32 32 3, ?shapes)
      \<and> ?self1 = (init ())\<lparr>self_built := True, self_gradient_function := Some (),
       self_input_shape := Some (GridShape 32 32 3), self_output_shapes := Some ?shapes\<rparr>"
    by (simp add: demo_prepare)
  note t = compute_probes_canonical [of demo_api "init ()" "()", THEN conjunct2, rule_format,
      OF pre]
  have c: "canonical_probes ?shapes =
     [([GridPoint 1 2, GridPoint 3 1], Some 1), ([GridPoint 2 3, GridPoint 4 2], Some 1),
      ([GridPoint 0 0, GridPoint 0 0], None)]"
    by (simp add: canonical_probes_def map_center_def numeral_2_eq_2)
  have d: "compute demo_api (init ()) () =
      (fst (compute demo_api (init ()) ()), fst (snd (compute demo_api (init ()) ())),
       snd (snd (compute demo_api (init ()) ())))"
    by simp
  have "\<exists>fms. fst (compute demo_api (init ()) ()) = Inr fms"
    by (simp add: demo_compute)
  then obtain fms where "compute demo_api (init ()) () =
      (Inr fms, fst (snd (compute demo_api (init ()) ())),
       snd (snd (compute demo_api (init ()) ())))"
    using d by metis
  from t [THEN conjunct2, THEN conjunct1, rule_format, OF this]
  have 1: "snd (snd (compute demo_api (init ()) ())) = canonical_probes ?shapes"
    by simp
  have "prepare_gradient_func picky_api (init ()) () =
          prepare_gradient_func demo_api (init ()) ()
      \<and> estimate_rf_from_gradients picky_api = estimate_rf_from_gradients demo_api
      \<and> (\<forall>(points, intensity) \<in> set (canonical_probes ?shapes).
            get_gradient_from_grid_points picky_api ?self1 points intensity =
            get_gradient_from_grid_points demo_api ?self1 points intensity)"
    by (auto simp: picky_api_def)
  from t [THEN conjunct2, THEN conjunct2, rule_format, OF this]
  have 2: "compute picky_api (init ()) () = compute demo_api (init ()) ()" .
  from 1 2 c show ?thesis by simp
qed

text \<open>
  Claim C3. On a built instance, \<^verbatim>\<open>_get_gradient_activation_at_map_center\<close> probes,
  with the intensity it is given (1 if none), the point for feature map \<open>fm\<close> of
  shape \<open>w\<close> by \<open>h\<close> whose \<open>x\<close> is
  \<open>w // 2 - 1\<close> for even \<open>w\<close> and \<open>w // 2\<close> for odd \<open>w\<close>, plus the \<open>x\<close> of the centre
  offset given for \<open>fm\<close>, and likewise for \<open>y\<close> and \<open>h\<close>; with the offsets
  \<open>(0, 0)\<close> it probes the aligned centres themselves.
\<close>

theorem map_center_probe_points:
  assumes "self_built self" and "self_output_shapes self = Some shapes"
    and "length shapes \<le> length center_offsets"
  shows "get_gradient_activation_at_map_center api self center_offsets intensity =
      (get_gradient_from_grid_points api self
         (map (\<lambda>fm. GridPoint
                 ((if even (gs_w (shapes ! fm)) then gs_w (shapes ! fm) div 2 - 1
                   else gs_w (shapes ! fm) div 2) + gp_x (center_offsets ! fm))
                 ((if even (gs_h (shapes ! fm)) then gs_h (shapes ! fm) div 2 - 1
                   else gs_h (shapes ! fm) div 2) + gp_y (center_offsets ! fm)))
            [0..<length shapes])
         (Some (case intensity of None \<Rightarrow> 1 | Some i \<Rightarrow> i)),
       [(map (\<lambda>fm. GridPoint
                 ((if even (gs_w (shapes ! fm)) then gs_w (shapes ! fm) div 2 - 1
                   else gs_w (shapes ! fm) div 2) + gp_x (center_offsets ! fm))
                 ((if even (gs_h (shapes ! fm)) then gs_h (shapes ! fm) div 2 - 1
                   else gs_h (shapes ! fm) div 2) + gp_y (center_offsets ! fm)))
            [0..<length shapes],
         Some (case intensity of None \<Rightarrow> 1 | Some i \<Rightarrow> i))])
    \<and> get_gradient_activation_at_map_center api self
        (replicate (length shapes) (GridPoint 0 0)) intensity =
      (get_gradient_from_grid_points api self
         (map (\<lambda>sh. GridPoint
                 (if even (gs_w sh) then gs_w sh div 2 - 1 else gs_w sh div 2)
                 (if even (gs_h sh) then gs_h sh div 2 - 1 else gs_h sh div 2)) shapes)
         (Some (case intensity of None \<Rightarrow> 1 | Some i \<Rightarrow> i)),
       [(map (\<lambda>sh. GridPoint
                 (if even (gs_w sh) then gs_w sh div 2 - 1 else gs_w sh div 2)
                 (if even (gs_h sh) then gs_h sh div 2 - 1 else gs_h sh div 2)) shapes,
         Some (case intensity of None \<Rightarrow> 1 | Some i \<Rightarrow> i))])"
proof -
  have c: "map_center sh off =
      GridPoint ((if even (gs_w sh) then gs_w sh div 2 - 1 else gs_w sh div 2) + gp_x off)
                ((if even (gs_h sh) then gs_h sh div 2 - 1 else gs_h sh div 2) + gp_y off)"
    for sh off
    by (simp add: map_center_def Let_def even_iff_mod_2_eq_zero)
  show ?thesis
    using get_center_offsets [OF assms, of api intensity]
      get_center_built [OF assms(1,2), of api "GridPoint 0 0" intensity]
    by (simp add: c)
qed

theorem map_center_probe_points_witness:
  "get_gradient_activation_at_map_center demo_api
      (fst (snd (compute demo_api (init ()) ()))) [GridPoint 0 0, GridPoint 5 7] (Some 3) =
     (Inr [(0, GridPoint 1 2), (1, GridPoint 8 8)],
      [([GridPoint 1 2, GridPoint 8 8], Some 3)])
   \<and> get_gradient_activation_at_map_center demo_api
      (fst (snd (compute demo_api (init ()) ()))) [GridPoint 0 0, GridPoint 0 0] None =
     (Inr [(0, GridPoint 1 2), (1, GridPoint 3 1)],
      [([GridPoint 1 2, GridPoint 3 1], Some 1)])"
proof -
  let ?self = "fst (snd (compute demo_api (init ()) ()))"
  have b: "self_built ?self"
    and o: "self_output_shapes ?self = Some [GridShape 4 6 8, GridShape 7 3 16]"
    by (simp_all add: demo_compute)
  have l: "length [GridShape 4 6 8, GridShape 7 3 16] \<le> length [GridPoint 0 0, GridPoint 5 7]"
    by simp
  show ?thesis
    using map_center_probe_points [OF b o l, of demo_api "Some 3"]
      map_center_probe_points [OF b o l, of demo_api None]
    by (simp add: demo_api_def upt2 numeral_2_eq_2)
qed

text \<open>
  Claim C4, as stated, fails: the two \<^verbatim>\<open>zip\<close>s (lines 37 and 185) stop at the
  shortest list. With two output shapes and estimations that return one rectangle,
  \<^verbatim>\<open>compute\<close> returns one description.
\<close>

theorem compute_fewer_descriptions_counterexample:
  "self_output_shapes (fst (snd (compute short_api (init ()) ()))) =
     Some [GridShape 4 6 8, GridShape 7 3 16]
   \<and> fst (compute short_api (init ()) ()) =
     Inr [FeatureMapDescription (Size 4 6)
            (ReceptiveFieldDescription (11/2, 11/2) (8, 8) (Size 11 11))]"
proof -
  have p: "prepare_gradient_func short_api (init ()) () =
             Inr ((), GridShape 32 32 3, [GridShape 4 6 8, GridShape 7 3 16])"
    by (simp add: short_api_def demo_api_def)
  show ?thesis
    unfolding compute_built [OF p refl]
    by (simp add: canonical_probes_def map_center_def feature_maps_desc_def check_def
        rf_params_of_def init_def short_api_def demo_api_def upt2 numeral_2_eq_2)
qed

text \<open>
  Claim C4, amended. When \<^verbatim>\<open>compute\<close> returns, it has stored one estimated
  description for each index below the lengths of the three estimations, description
  \<open>i\<close> being computed from rectangle \<open>i\<close> of each, and it returns one
  \<^verbatim>\<open>FeatureMapDescription\<close> for each index below the number of output shapes and the
  number of stored descriptions: entry \<open>i\<close> pairs the width and height of output shape
  \<open>i\<close> with stored description \<open>i\<close>. The list is as long as the list of output shapes
  when every estimation returns at least one rectangle per feature map.
\<close>

theorem compute_one_description_per_feature_map:
  assumes "prepare_gradient_func api self0 args = Inr (gf, ish, shapes)"
    and "self1 = self0\<lparr>self_built := True, self_gradient_function := Some gf,
                   self_input_shape := Some ish, self_output_shapes := Some shapes\<rparr>"
    and "get_gradient_from_grid_points api self1
           (map (\<lambda>sh. map_center sh (GridPoint 0 0)) shapes) (Some 1) = Inr rf_grads00"
    and "estimate_rf_from_gradients api rf_grads00 = Inr rfs_at00"
    and "get_gradient_from_grid_points api self1
           (map (\<lambda>sh. map_center sh (GridPoint 1 1)) shapes) (Some 1) = Inr rf_grads11"
    and "estimate_rf_from_gradients api rf_grads11 = Inr rfs_at11"
    and "get_gradient_from_grid_points api self1
           (replicate (length shapes) (GridPoint 0 0)) None = Inr rf_grads_point00"
    and "estimate_rf_from_gradients api rf_grads_point00 = Inr rfs_at_point00"
  shows "\<exists>fms self' calls rfs.
      compute api self0 args = (Inr fms, self', calls)
    \<and> self_output_shapes self' = Some shapes
    \<and> self_rf_params self' = Some rfs
    \<and> length rfs = min (length rfs_at_point00) (min (length rfs_at00) (length rfs_at11))
    \<and> length fms = min (length shapes) (length rfs)
    \<and> (\<forall>i < length fms.
          fms ! i = FeatureMapDescription (Size (gs_w (shapes ! i)) (gs_h (shapes ! i))) (rfs ! i)
        \<and> rfs ! i = rf_params_of (rfs_at_point00 ! i) (rfs_at00 ! i) (rfs_at11 ! i))
    \<and> (length shapes \<le> length rfs_at_point00 \<and> length shapes \<le> length rfs_at00
        \<and> length shapes \<le> length rfs_at11 \<longrightarrow> length fms = length shapes)"
  unfolding compute_success [OF assms refl]
  by (simp add: assms(2))

theorem compute_one_description_per_feature_map_witness:
  "\<exists>fms self' calls rfs.
      compute demo_api (init ()) () = (Inr fms, self', calls)
    \<and> self_output_shapes self' = Some [GridShape 4 6 8, GridShape 7 3 16]
    \<and> self_rf_params self' = Some rfs
    \<and> length fms = 2
    \<and> fms ! 0 = FeatureMapDescription (Size 4 6) (rfs ! 0)
    \<and> rfs ! 0 = rf_params_of (ReceptiveFieldRect 5 5 11 11) (ReceptiveFieldRect 13 21 11 11)
                   (ReceptiveFieldRect 21 29 11 11)
    \<and> fms ! 1 = FeatureMapDescription (Size 7 3) (rfs ! 1)
    \<and> rfs ! 1 = rf_params_of (ReceptiveFieldRect 5 5 19 19) (ReceptiveFieldRect 53 21 19 19)
                   (ReceptiveFieldRect 69 37 19 19)"
proof -
  from compute_one_description_per_feature_map [OF demo_prepare refl demo_grads00 demo_rects00 demo_grads11 demo_rects11
      demo_grads_point00 demo_rects_point00]
  show ?thesis
    by (auto simp: numeral_2_eq_2)
qed

text \<open>
  The guard as it is written: each of the four accessors raises the guard's exception
  exactly when \<^verbatim>\<open>_built\<close> is false; on every instance that calls of \<^verbatim>\<open>compute\<close> can
  leave, \<^verbatim>\<open>input_shape\<close>, \<^verbatim>\<open>output_shapes\<close> and \<^verbatim>\<open>num_feature_maps\<close> raise nothing
  else; and after a \<^verbatim>\<open>compute\<close> that returned none of the four raises.
\<close>

lemma accessors_guard:
  "(feature_maps_desc self = Inl NotComputed \<longleftrightarrow> \<not> self_built self)
   \<and> (input_shape self = Inl NotComputed \<longleftrightarrow> \<not> self_built self)
   \<and> (output_shapes self = Inl NotComputed \<longleftrightarrow> \<not> self_built self)
   \<and> (num_feature_maps self = Inl NotComputed \<longleftrightarrow> \<not> self_built self)
   \<and> (reachable api self \<longrightarrow>
        ((\<exists>e. input_shape self = Inl e) \<longleftrightarrow> \<not> self_built self)
      \<and> ((\<exists>e. output_shapes self = Inl e) \<longleftrightarrow> \<not> self_built self)
      \<and> ((\<exists>e. num_feature_maps self = Inl e) \<longleftrightarrow> \<not> self_built self))
   \<and> (compute api self0 args = (Inr fms, self', calls) \<longrightarrow>
        feature_maps_desc self' = Inr fms
      \<and> (\<exists>v. input_shape self' = Inr v)
      \<and> (\<exists>v. output_shapes self' = Inr v)
      \<and> (\<exists>n. num_feature_maps self' = Inr n))"
proof -
  have guard: "(feature_maps_desc self = Inl NotComputed \<longleftrightarrow> \<not> self_built self)
   \<and> (input_shape self = Inl NotComputed \<longleftrightarrow> \<not> self_built self)
   \<and> (output_shapes self = Inl NotComputed \<longleftrightarrow> \<not> self_built self)
   \<and> (num_feature_maps self = Inl NotComputed \<longleftrightarrow> \<not> self_built self)"
    by (simp add: feature_maps_desc_def input_shape_def output_shapes_def
        num_feature_maps_def check_def split: option.splits)
  have reach: "((\<exists>e. input_shape self = Inl e) \<longleftrightarrow> \<not> self_built self)
      \<and> ((\<exists>e. output_shapes self = Inl e) \<longleftrightarrow> \<not> self_built self)
      \<and> ((\<exists>e. num_feature_maps self = Inl e) \<longleftrightarrow> \<not> self_built self)"
    if r: "reachable api self"
  proof (cases "self_built self")
    case True
    from reachable_built [OF r True] True show ?thesis
      by (auto simp: input_shape_def output_shapes_def num_feature_maps_def check_def)
  next
    case False
    then show ?thesis
      by (simp add: input_shape_def output_shapes_def num_feature_maps_def check_def)
  qed
  have after: "feature_maps_desc self' = Inr fms
      \<and> (\<exists>v. input_shape self' = Inr v)
      \<and> (\<exists>v. output_shapes self' = Inr v)
      \<and> (\<exists>n. num_feature_maps self' = Inr n)"
    if c: "compute api self0 args = (Inr fms, self', calls)"
  proof -
    from compute_success_state [OF c] have "(\<exists>v. input_shape self' = Inr v)
      \<and> (\<exists>v. output_shapes self' = Inr v) \<and> (\<exists>n. num_feature_maps self' = Inr n)"
      by (auto simp: input_shape_def output_shapes_def num_feature_maps_def check_def)
    moreover have "feature_maps_desc self' = Inr fms"
      by (rule compute_returns_desc [OF c])
    ultimately show ?thesis by simp
  qed
  from guard reach after show ?thesis by blast
qed

text \<open>
  Claim C5. An accessor raises exactly when the receptive field has not been computed,
  and \<^verbatim>\<open>_check\<close> reports that state by its exception "Receptive field not computed. Run
  compute function.". The code misses one such state in \<^verbatim>\<open>feature_maps_desc\<close>:
  \<^verbatim>\<open>_built\<close> is set when the gradient function is built (line 72), before
  \<^verbatim>\<open>_rf_params\<close> exists. Run at a backend whose estimation raises, as the docstring of
  \<^verbatim>\<open>compute\<close> says it may, \<^verbatim>\<open>compute\<close> raises and leaves \<^verbatim>\<open>_built\<close> true and
  \<^verbatim>\<open>_rf_params\<close> \<^verbatim>\<open>None\<close>; on that instance \<^verbatim>\<open>feature_maps_desc\<close> passes the guard
  and raises \<^verbatim>\<open>TypeError\<close> from \<^verbatim>\<open>zip\<close>, while the three sibling accessors return.
\<close>

theorem feature_maps_desc_after_failed_compute:
  "fst (compute failing_api (init ()) ()) = Inl (Raised ''receptive field too big'')
   \<and> reachable failing_api (fst (snd (compute failing_api (init ()) ())))
   \<and> self_built (fst (snd (compute failing_api (init ()) ())))
   \<and> self_rf_params (fst (snd (compute failing_api (init ()) ()))) = None
   \<and> feature_maps_desc (fst (snd (compute failing_api (init ()) ()))) = Inl TypeError
   \<and> input_shape (fst (snd (compute failing_api (init ()) ()))) = Inr (ImageShape 32 32 3)
   \<and> output_shapes (fst (snd (compute failing_api (init ()) ()))) = Inr [Size 4 6, Size 7 3]
   \<and> num_feature_maps (fst (snd (compute failing_api (init ()) ()))) = Inr 2"
proof -
  have "reachable failing_api (fst (snd (compute failing_api (init ()) ())))"
    by (rule reachable_compute [OF reachable_init, of failing_api "()" "()"
        "fst (compute failing_api (init ()) ())" _
        "snd (snd (compute failing_api (init ()) ()))"]) simp
  then show ?thesis
    by (simp add: failing_compute feature_maps_desc_def input_shape_def output_shapes_def
        num_feature_maps_def check_def)
qed

text \<open>
  Claim C7, as stated, fails: after \<^verbatim>\<open>compute\<close> has returned, the instance holds the
  estimated offsets, strides and sizes in \<^verbatim>\<open>_rf_params\<close>, and a later
  \<^verbatim>\<open>feature_maps_desc\<close> depends on them: it returns them, and raises once they are
  taken away.
\<close>

theorem compute_retains_rf_params_counterexample:
  "self_rf_params (fst (snd (compute demo_api (init ()) ()))) =
      Some [ReceptiveFieldDescription (11/2, 11/2) (8, 8) (Size 11 11),
            ReceptiveFieldDescription (19/2, 19/2) (16, 16) (Size 19 19)]
   \<and> feature_maps_desc (fst (snd (compute demo_api (init ()) ()))) =
      Inr [FeatureMapDescription (Size 4 6)
             (ReceptiveFieldDescription (11/2, 11/2) (8, 8) (Size 11 11)),
           FeatureMapDescription (Size 7 3)
             (ReceptiveFieldDescription (19/2, 19/2) (16, 16) (Size 19 19))]
   \<and> feature_maps_desc ((fst (snd (compute demo_api (init ()) ())))\<lparr>self_rf_params := None\<rparr>) =
      Inl TypeError"
  by (simp add: demo_compute feature_maps_desc_def check_def)

text \<open>
  Claim C7, amended. A \<^verbatim>\<open>compute\<close> that returns leaves its results on the instance:
  \<^verbatim>\<open>_rf_params\<close> holds the estimated descriptions, next to \<^verbatim>\<open>_built\<close>,
  \<^verbatim>\<open>_gradient_function\<close>, \<^verbatim>\<open>_input_shape\<close> and \<^verbatim>\<open>_output_shapes\<close>, and nothing else
  of the instance changes (the gradient maps and the three lists of rectangles are not
  kept). Later operations read that state: \<^verbatim>\<open>feature_maps_desc\<close> returns what
  \<^verbatim>\<open>compute\<close> returned, and \<^verbatim>\<open>plot_rf_grid\<close> for feature map \<open>fm\<close> plots the stored
  description \<open>fm\<close> on the stored shapes.
\<close>

theorem compute_keeps_rf_params:
  assumes "prepare_gradient_func api self0 args = Inr (gf, ish, shapes)"
    and "self1 = self0\<lparr>self_built := True, self_gradient_function := Some gf,
                   self_input_shape := Some ish, self_output_shapes := Some shapes\<rparr>"
    and "get_gradient_from_grid_points api self1
           (map (\<lambda>sh. map_center sh (GridPoint 0 0)) shapes) (Some 1) = Inr rf_grads00"
    and "estimate_rf_from_gradients api rf_grads00 = Inr rfs_at00"
    and "get_gradient_from_grid_points api self1
           (map (\<lambda>sh. map_center sh (GridPoint 1 1)) shapes) (Some 1) = Inr rf_grads11"
    and "estimate_rf_from_gradients api rf_grads11 = Inr rfs_at11"
    and "get_gradient_from_grid_points api self1
           (replicate (length shapes) (GridPoint 0 0)) None = Inr rf_grads_point00"
    and "estimate_rf_from_gradients api rf_grads_point00 = Inr rfs_at_point00"
    and "rfs = map (\<lambda>(p, c, d). rf_params_of p c d)
                  (zip rfs_at_point00 (zip rfs_at00 rfs_at11))"
  shows "\<exists>fms self' calls.
      compute api self0 args = (Inr fms, self', calls)
    \<and> self' = self0\<lparr>self_built := True, self_gradient_function := Some gf,
                   self_input_shape := Some ish, self_output_shapes := Some shapes,
                   self_rf_params := Some rfs\<rparr>
    \<and> feature_maps_desc self' = Inr fms
    \<and> (\<forall>fm. fm < length shapes \<and> fm < length rfs \<longrightarrow>
          plot_rf_grid api self' (int fm) custom_image plot_naive_rf =
            plot_receptive_grid api (Some ish) (shapes ! fm) (rfs ! fm)
              custom_image plot_naive_rf)"
  unfolding compute_success [OF assms]
  by (simp add: assms(2) feature_maps_desc_def check_def plot_rf_grid_def py_index_def)

theorem compute_keeps_rf_params_witness:
  "\<exists>fms self' calls.
      compute demo_api (init ()) () = (Inr fms, self', calls)
    \<and> self_rf_params self' =
        Some [ReceptiveFieldDescription (11/2, 11/2) (8, 8) (Size 11 11),
              ReceptiveFieldDescription (19/2, 19/2) (16, 16) (Size 19 19)]
    \<and> feature_maps_desc self' = Inr fms
    \<and> plot_rf_grid demo_api self' 1 None False = Inr ()"
proof -
  from compute_keeps_rf_params [OF demo_prepare refl demo_grads00 demo_rects00 demo_grads11 demo_rects11
      demo_grads_point00 demo_rects_point00 refl, of None False]
  obtain fms self' calls where
    c: "compute demo_api (init ()) () = (Inr fms, self', calls)"
    and s: "self' = (init ())\<lparr>self_built := True, self_gradient_function := Some (),
                   self_input_shape := Some (GridShape 32 32 3),
                   self_output_shapes := Some [GridShape 4 6 8, GridShape 7 3 16],
                   self_rf_params := Some (map (\<lambda>(p, c, d). rf_params_of p c d)
                  (zip [ReceptiveFieldRect 5 5 11 11, ReceptiveFieldRect 5 5 19 19]
                    (zip [ReceptiveFieldRect 13 21 11 11, ReceptiveFieldRect 53 21 19 19]
                      [ReceptiveFieldRect 21 29 11 11, ReceptiveFieldRect 69 37 19 19])))\<rparr>"
    and f: "feature_maps_desc self' = Inr fms"
    and p: "\<forall>fm. fm < length [GridShape 4 6 8, GridShape 7 3 16] \<and>
          fm < length (map (\<lambda>(p, c, d). rf_params_of p c d)
                  (zip [ReceptiveFieldRect 5 5 11 11, ReceptiveFieldRect 5 5 19 19]
                    (zip [ReceptiveFieldRect 13 21 11 11, ReceptiveFieldRect 53 21 19 19]
                      [ReceptiveFieldRect 21 29 11 11, ReceptiveFieldRect 69 37 19 19]))) \<longrightarrow>
          plot_rf_grid demo_api self' (int fm) None False =
            plot_receptive_grid demo_api (Some (GridShape 32 32 3))
              ([GridShape 4 6 8, GridShape 7 3 16] ! fm)
              (map (\<lambda>(p, c, d). rf_params_of p c d)
                  (zip [ReceptiveFieldRect 5 5 11 11, ReceptiveFieldRect 5 5 19 19]
                    (zip [ReceptiveFieldRect 13 21 11 11, ReceptiveFieldRect 53 21 19 19]
                      [ReceptiveFieldRect 21 29 11 11, ReceptiveFieldRect 69 37 19 19])) ! fm)
              None False"
    by blast
  from p [rule_format, of 1] have "plot_rf_grid demo_api self' 1 None False = Inr ()"
    by (simp add: demo_api_def)
  moreover from s have "self_rf_params self' =
        Some [ReceptiveFieldDescription (11/2, 11/2) (8, 8) (Size 11 11),
              ReceptiveFieldDescription (19/2, 19/2) (16, 16) (Size 19 19)]"
    by (simp add: rf_params_of_def)
  ultimately show ?thesis using c f by blast
qed

text \<open>
  Claim C9. \<^verbatim>\<open>plot_rf_grid\<close> is not protected by the guard: on every instance on
  which \<^verbatim>\<open>compute\<close> has not been run it subscripts the \<^verbatim>\<open>None\<close> of the unset
  attributes and raises \<^verbatim>\<open>TypeError\<close>, where \<^verbatim>\<open>_check\<close> would have raised the
  "Receptive field not computed" exception; and on any instance its outcome does not
  depend on \<^verbatim>\<open>_built\<close> at all.
\<close>

theorem plot_rf_grid_unguarded:
  "plot_rf_grid api (init model_func) fm_id custom_image plot_naive_rf = Inl TypeError
   \<and> check (init model_func) = Inl NotComputed
   \<and> plot_rf_grid api (self\<lparr>self_built := b\<rparr>) fm_id custom_image plot_naive_rf =
       plot_rf_grid api self fm_id custom_image plot_naive_rf"
  by (simp add: plot_rf_grid_def init_def check_def split: option.splits sum.splits)

section \<open>Properties of \<^verbatim>\<open>load_model_state\<close>\<close>

lemma check_args_result:
  assumes "\<forall>k \<in> set ks. k \<notin> set ignored_keys \<longrightarrow> map_of args2 k \<noteq> None \<and> map_of cp_args k \<noteq> None"
  shows "check_args args2 cp_args ks =
    (if \<exists>k \<in> set ks. k \<notin> set ignored_keys
          \<and> py_ne (the (map_of args2 k)) (the (map_of cp_args k))
     then Inl (SystemExit 0) else Inr ())"
  using assms by (induction ks) auto

text \<open>
  After lines 55 to 57 the copy has every key of \<^verbatim>\<open>args\<close> with its value, and the
  three old defaults for the keys \<^verbatim>\<open>args\<close> lacks.
\<close>

lemma fill_defaults_old:
  "map_of (fill_defaults old_default_keys args args) k =
     (case map_of args k of Some v \<Rightarrow> Some v | None \<Rightarrow> map_of old_default_keys k)"
  by (auto simp: old_default_keys_def update_conv' split: option.splits)

lemma demo_args2:
  "fill_defaults old_default_keys demo_args demo_args =
     [(''device'', CStr ''cpu''), (''net'', CStr ''segtran''), (''num_classes'', CInt 4),
      (''maxiter'', CInt 10), (''out_fpn_upsampleD_scheme'', CStr ''interpolate''),
      (''num_recurrences'', CInt 1), (''qk_have_bias'', CBool True)]"
  by (simp add: old_default_keys_def demo_args_def)

text \<open>
  Claim C6, as stated, fails: the checkpoint \<^verbatim>\<open>new.pth\<close> stores the option
  \<^verbatim>\<open>new_option\<close>, which is not ignored and which the supplied arguments do not have.
  \<^verbatim>\<open>args2.__dict__[k]\<close> raises \<^verbatim>\<open>KeyError\<close>: the process does not exit and the
  parameters are not loaded.
\<close>

theorem load_model_state_missing_key_counterexample:
  "load_model_state demo_torch [(''w'', 0), (''b'', 1)] demo_args ''new.pth'' =
     Inl (KeyError ''new_option'')"
  by (simp add: load_model_state_def demo_torch_def demo_args_def ignored_keys_def
      old_default_keys_def py_ne_def)

text \<open>
  Claim C6, amended. With net type \<^verbatim>\<open>segtran\<close>, a checkpoint that stores
  \<^verbatim>\<open>model\<close>, \<^verbatim>\<open>args\<close> and \<^verbatim>\<open>iter_num\<close>, and every key of the checkpoint's
  arguments that is not ignored present in the supplied arguments (after the old
  defaults are filled in): \<^verbatim>\<open>load_model_state\<close> exits with status 0 when some key
  that is not ignored has a value in the checkpoint's arguments (whose \<^verbatim>\<open>device\<close> is
  first overwritten with the supplied one) different from the supplied one, and
  otherwise updates the network's parameters with the checkpoint's, loads them into the
  network and returns it.
\<close>

theorem load_model_state_segtran:
  assumes "map_of args ''device'' = Some device"
    and "map_of args ''net'' = Some (CStr ''segtran'')"
    and "torch_load api checkpoint_path device = Inr loaded"
    and "sd_model loaded = Some model_state_dict"
    and "sd_args loaded = Some stored"
    and "sd_iter_num loaded = Some iter_num"
    and "cp_args = AList.update ''device'' device stored"
    and "args2 = fill_defaults old_default_keys args args"
    and "\<forall>k \<in> fst ` set cp_args. k \<notin> set ignored_keys \<longrightarrow> map_of args2 k \<noteq> None"
  shows "load_model_state api net args checkpoint_path =
    (if \<exists>k \<in> fst ` set cp_args. k \<notin> set ignored_keys
          \<and> py_ne (the (map_of args2 k)) (the (map_of cp_args k))
     then Inl (SystemExit 0)
     else net_load_state_dict api net
            (params_update api (net_state_dict api net) model_state_dict))"
proof -
  have "\<forall>k \<in> set (map fst cp_args). k \<notin> set ignored_keys \<longrightarrow>
          map_of args2 k \<noteq> None \<and> map_of cp_args k \<noteq> None"
    using assms(9) by (auto simp: map_of_eq_None_iff)
  from check_args_result [OF this]
  have c: "check_args args2 cp_args (map fst cp_args) =
    (if \<exists>k \<in> fst ` set cp_args. k \<notin> set ignored_keys
          \<and> py_ne (the (map_of args2 k)) (the (map_of cp_args k))
     then Inl (SystemExit 0) else Inr ())"
    by simp
  have "load_model_state api net args checkpoint_path =
      (case check_args args2 cp_args (map fst cp_args) of Inl e \<Rightarrow> Inl e
       | Inr _ \<Rightarrow> net_load_state_dict api net
            (params_update api (net_state_dict api net) model_state_dict))"
    unfolding load_model_state_def
    by (simp add: assms(1-6) Let_def flip: assms(7,8))
  then show ?thesis
    unfolding c by auto
qed

theorem load_model_state_segtran_witness:
  "load_model_state demo_torch [(''w'', 0), (''b'', 1)] demo_args ''good.pth'' =
     Inr [(''w'', 7), (''b'', 1)]
   \<and> load_model_state demo_torch [(''w'', 0), (''b'', 1)] demo_args ''bad.pth'' =
     Inl (SystemExit 0)"
proof -
  have d: "map_of demo_args ''device'' = Some (CStr ''cpu'')"
    and n: "map_of demo_args ''net'' = Some (CStr ''segtran'')"
    by (simp_all add: demo_args_def)
  have lg: "torch_load demo_torch ''good.pth'' (CStr ''cpu'') =
      Inr \<lparr>sd_model = Some [(''w'', 7)],
               sd_args = Some [(''net'', CStr ''segtran''), (''num_classes'', CInt 4),
                               (''maxiter'', CInt 51000), (''qk_have_bias'', CInt 1),
                               (''device'', CStr ''cuda'')],
               sd_iter_num = Some 51000, sd_params = []\<rparr>"
    by (simp add: demo_torch_def)
  have lb: "torch_load demo_torch ''bad.pth'' (CStr ''cpu'') =
      Inr \<lparr>sd_model = Some [(''w'', 7)],
               sd_args = Some [(''net'', CStr ''segtran''), (''num_classes'', CInt 2)],
               sd_iter_num = Some 51000, sd_params = []\<rparr>"
    by (simp add: demo_torch_def)
  have pg: "\<forall>k \<in> fst ` set (AList.update ''device'' (CStr ''cpu'')
              [(''net'', CStr ''segtran''), (''num_classes'', CInt 4),
               (''maxiter'', CInt 51000), (''qk_have_bias'', CInt 1),
               (''device'', CStr ''cuda'')]).
          k \<notin> set ignored_keys \<longrightarrow>
          map_of (fill_defaults old_default_keys demo_args demo_args) k \<noteq> None"
    by (simp add: demo_args2 ignored_keys_def)
  have pb: "\<forall>k \<in> fst ` set (AList.update ''device'' (CStr ''cpu'')
              [(''net'', CStr ''segtran''), (''num_classes'', CInt 2)]).
          k \<notin> set ignored_keys \<longrightarrow>
          map_of (fill_defaults old_default_keys demo_args demo_args) k \<noteq> None"
    by (simp add: demo_args2 ignored_keys_def)
  have "load_model_state demo_torch [(''w'', 0), (''b'', 1)] demo_args ''good.pth'' =
     Inr [(''w'', 7), (''b'', 1)]"
    using load_model_state_segtran [OF d n lg _ _ _ refl refl pg, of "[(''w'', 7)]" 51000
        "[(''w'', 0), (''b'', 1)]"]
    by (simp add: demo_args2 ignored_keys_def py_ne_def demo_torch_def)
  moreover have "load_model_state demo_torch [(''w'', 0), (''b'', 1)] demo_args ''bad.pth'' =
     Inl (SystemExit 0)"
    using load_model_state_segtran [OF d n lb _ _ _ refl refl pb, of "[(''w'', 7)]" 51000
        "[(''w'', 0), (''b'', 1)]"]
    by (simp add: demo_args2 ignored_keys_def py_ne_def demo_torch_def)
  ultimately show ?thesis by simp
qed

section \<open>Properties of \<^verbatim>\<open>read_mask\<close>\<close>

lemma py_del_2:
  "py_del xs 2 = (if 2 < length xs then Inr (take 2 xs @ drop 3 xs) else Inl IndexError)"
  by (simp add: py_del_def numeral_3_eq_3)

lemma py_int_of_int: "py_int (real_of_int m) = m"
  by (simp add: py_int_def)

text \<open>
  The loop appends one label per index and adds one actor per index to the renderer,
  when the mask type has a colour for each index and the renderer is set.
\<close>

lemma read_mask_loop_labels:
  assumes "MASK_COLORS api mask_type = Some colors"
    and "self_renderer self = Some actors"
    and "length (labels mask') + m \<le> length colors"
  shows "\<exists>mask'' acts.
      read_mask_loop api mask_type [length (labels mask')..<length (labels mask') + m] mask' self =
        (Inr mask'', self\<lparr>self_renderer := Some (actors @ acts)\<rparr>)
    \<and> length (labels mask'') = length (labels mask') + m
    \<and> length acts = m"
  using assms
proof (induction m arbitrary: mask' self actors)
  case 0
  then show ?case by simp
next
  case (Suc m)
  let ?k = "length (labels mask')"
  let ?mask1 = "mask'\<lparr>labels := labels mask'
                     @ [NiiLabel (colors ! ?k) (MASK_OPACITY api) (MASK_SMOOTHNESS api)]\<rparr>"
  let ?l = "labels ?mask1 ! ?k"
  let ?mask2 = "?mask1\<lparr>labels := (labels ?mask1)
                     [?k := ?l\<lparr>extractor := Some (create_mask_extractor api ?mask1)\<rparr>]\<rparr>"
  let ?l2 = "labels ?mask2 ! ?k"
  let ?mask3 = "?mask2\<lparr>labels := (labels ?mask2)
                     [?k := add_surface_rendering api ?mask2 ?k (?k + 1) ?l2]\<rparr>"
  let ?l3 = "labels ?mask3 ! ?k"
  let ?self' = "self\<lparr>self_renderer := Some (actors @ [actor ?l3])\<rparr>"
  have k: "?k < length colors" using Suc.prems(3) by simp
  have len3: "length (labels ?mask3) = Suc ?k" by simp
  have upt: "[?k..<?k + Suc m] = ?k # [Suc ?k..<Suc ?k + m]"
    by (simp add: upt_conv_Cons)
  have step: "read_mask_loop api mask_type [?k..<?k + Suc m] mask' self =
      read_mask_loop api mask_type [Suc ?k..<Suc ?k + m] ?mask3 ?self'"
    unfolding upt
    by (simp add: Suc.prems(1,2) py_index_nat k Let_def del: upt_Suc)
  have "\<exists>mask'' acts.
      read_mask_loop api mask_type [length (labels ?mask3)..<length (labels ?mask3) + m] ?mask3 ?self' =
        (Inr mask'', ?self'\<lparr>self_renderer := Some ((actors @ [actor ?l3]) @ acts)\<rparr>)
    \<and> length (labels mask'') = length (labels ?mask3) + m
    \<and> length acts = m"
    by (rule Suc.IH) (use Suc.prems in simp_all)
  then obtain mask'' acts where
    r: "read_mask_loop api mask_type [Suc ?k..<Suc ?k + m] ?mask3 ?self' =
        (Inr mask'', ?self'\<lparr>self_renderer := Some ((actors @ [actor ?l3]) @ acts)\<rparr>)"
    and l: "length (labels mask'') = Suc ?k + m" and a: "length acts = m"
    unfolding len3 by blast
  show ?case
    apply (rule exI [of _ mask''])
    apply (rule exI [of _ "actor ?l3 # acts"])
    using r l a step by simp
qed

text \<open>
  Claim C8, as stated, fails outside a working set-up. On a \<^verbatim>\<open>FileReader\<close> whose
  renderer has not been set, a mask with largest value 1 makes \<^verbatim>\<open>read_mask\<close> raise
  \<^verbatim>\<open>AttributeError\<close> in the loop, not \<^verbatim>\<open>IndexError\<close>; for a mask type without colours it
  raises \<^verbatim>\<open>TypeError\<close>; and a mask with largest value 6, read with five colours
  configured, makes it raise \<^verbatim>\<open>IndexError\<close> in the loop instead of returning five labels.
\<close>

theorem read_mask_other_errors_counterexample:
  "fst (read_mask demo_vtk FileReader ''other.nii'' ''tumor'') = Inl (AttributeError ''AddActor'')
   \<and> fst (read_mask demo_vtk \<lparr>self_renderer = Some []\<rparr> ''other.nii'' ''brain'') = Inl TypeError
   \<and> fst (read_mask demo_vtk \<lparr>self_renderer = Some []\<rparr> ''big.nii'' ''tumor'') = Inl IndexError"
proof -
  have 1: "fst (read_mask demo_vtk FileReader ''other.nii'' ''tumor'') =
      Inl (AttributeError ''AddActor'')"
    by (simp add: read_mask_def demo_vtk_def FileReader_def py_int_def py_index_def
        NiiObject_def NiiLabel_def Let_def)
  have 2: "fst (read_mask demo_vtk \<lparr>self_renderer = Some []\<rparr> ''other.nii'' ''brain'') =
      Inl TypeError"
    by (simp add: read_mask_def demo_vtk_def py_int_def Let_def)
  have 3: "fst (read_mask demo_vtk \<lparr>self_renderer = Some []\<rparr> ''big.nii'' ''tumor'') =
      Inl IndexError"
    by (simp add: read_mask_def demo_vtk_def py_int_def py_index_def upt6
        NiiObject_def NiiLabel_def Let_def)
  from 1 2 3 show ?thesis by simp
qed

text \<open>
  Claim C8, amended. For a mask file whose largest scalar value is \<open>m\<close>, read by a
  \<^verbatim>\<open>FileReader\<close> whose renderer is set and with a mask type that has at least \<open>m\<close>
  colours, the loop of \<^verbatim>\<open>read_mask\<close> creates \<open>m\<close> labels, one per index from 0 to
  \<open>m - 1\<close>; \<^verbatim>\<open>del mask.labels[2]\<close> then removes the label at index 2 whatever the
  labels are, so that for \<open>m \<ge> 3\<close> the mask returned has \<open>m - 1\<close> labels, and for
  \<open>m < 3\<close> \<^verbatim>\<open>read_mask\<close> raises \<^verbatim>\<open>IndexError\<close>.
\<close>

theorem read_mask_labels:
  assumes "snd (GetScalarRange api (read_volume api file_name)) = real_of_int m"
    and "MASK_COLORS api mask_type = Some colors"
    and "m \<le> int (length colors)"
    and "self_renderer self = Some actors"
  shows "\<exists>created self'.
      read_mask_loop api mask_type [0..<nat m]
        (NiiObject\<lparr>nii_file := Some file_name, reader := Some (read_volume api file_name),
           extent := Some (GetDataExtent api (read_volume api file_name))\<rparr>) self =
        (Inr created, self')
    \<and> length (labels created) = nat m
    \<and> (3 \<le> m \<longrightarrow>
          read_mask api self file_name mask_type =
            (Inr (created\<lparr>labels := take 2 (labels created) @ drop 3 (labels created)\<rparr>), self')
        \<and> int (length (take 2 (labels created) @ drop 3 (labels created))) = m - 1)
    \<and> (m < 3 \<longrightarrow> read_mask api self file_name mask_type = (Inl IndexError, self'))"
proof -
  let ?mask0 = "NiiObject\<lparr>nii_file := Some file_name, reader := Some (read_volume api file_name),
           extent := Some (GetDataExtent api (read_volume api file_name))\<rparr>
           :: ('b, 'c, 'd, 'e, 'f) nii_object"
  have l0: "length (labels ?mask0) = 0" by (simp add: NiiObject_def)
  have "length (labels ?mask0) + nat m \<le> length colors"
    using assms(3) by (simp add: NiiObject_def)
  from read_mask_loop_labels [OF assms(2) assms(4) this]
  obtain created acts where
    loop: "read_mask_loop api mask_type [0..<nat m] ?mask0 self =
             (Inr created, self\<lparr>self_renderer := Some (actors @ acts)\<rparr>)"
    and len: "length (labels created) = nat m"
    unfolding l0 by auto
  have n: "py_int (snd (GetScalarRange api (read_volume api file_name))) = m"
    by (simp add: assms(1) py_int_of_int)
  have rm: "read_mask api self file_name mask_type =
      (case py_del (labels created) 2 of
         Inl e \<Rightarrow> (Inl e, self\<lparr>self_renderer := Some (actors @ acts)\<rparr>)
       | Inr ls \<Rightarrow> (Inr (created\<lparr>labels := ls\<rparr>), self\<lparr>self_renderer := Some (actors @ acts)\<rparr>))"
    by (simp add: read_mask_def n loop Let_def)
  show ?thesis
    apply (rule exI [of _ created])
    apply (rule exI [of _ "self\<lparr>self_renderer := Some (actors @ acts)\<rparr>"])
    using loop len by (auto simp: rm py_del_2)
qed

theorem read_mask_labels_witness:
  "(\<exists>mask'' self'. read_mask demo_vtk \<lparr>self_renderer = Some []\<rparr> ''tumor.nii'' ''tumor'' =
       (Inr mask'', self') \<and> length (labels mask'') = 3)
   \<and> fst (read_mask demo_vtk \<lparr>self_renderer = Some []\<rparr> ''other.nii'' ''tumor'') = Inl IndexError"
proof -
  have c: "MASK_COLORS demo_vtk ''tumor'' = Some [10, 20, 30, 40, 50]"
    by (simp add: demo_vtk_def)
  have r: "self_renderer \<lparr>self_renderer = Some ([] :: nat option list)\<rparr> = Some []"
    by simp
  have m4: "snd (GetScalarRange demo_vtk (read_volume demo_vtk ''tumor.nii'')) = real_of_int 4"
    by (simp add: demo_vtk_def)
  have m1: "snd (GetScalarRange demo_vtk (read_volume demo_vtk ''other.nii'')) = real_of_int 1"
    by (simp add: demo_vtk_def)
  have "(4::int) \<le> int (length [10, 20, 30, 40, 50 :: nat])" by simp
  from read_mask_labels [OF m4 c this r]
  have 1: "\<exists>mask'' self'. read_mask demo_vtk \<lparr>self_renderer = Some []\<rparr> ''tumor.nii'' ''tumor'' =
       (Inr mask'', self') \<and> length (labels mask'') = 3"
    by auto
  have "(1::int) \<le> int (length [10, 20, 30, 40, 50 :: nat])" by simp
  from read_mask_labels [OF m1 c this r]
  have 2: "fst (read_mask demo_vtk \<lparr>self_renderer = Some []\<rparr> ''other.nii'' ''tumor'') = Inl IndexError"
    by auto
  from 1 2 show ?thesis by simp
qed

section \<open>Properties of \<^verbatim>\<open>MaskVisual\<close>\<close>

text \<open>
  Claim C10. \<^verbatim>\<open>set_visual(mask, opac_pk, smooth_pk)\<close> followed by \<^verbatim>\<open>get_visual()\<close>
  returns exactly the triple that was set, on every instance, and \<^verbatim>\<open>set_visual\<close>
  changes nothing but the three attributes: the rest of the object is as before, and the
  object after the call is determined by the triple and that rest alone.
\<close>

theorem set_visual_get_visual:
  "get_visual (set_visual self mask' opac_pk smooth_pk) = (mask', opac_pk, smooth_pk)
   \<and> mask_visual.more (set_visual self mask' opac_pk smooth_pk) = mask_visual.more self
   \<and> set_visual self mask' opac_pk smooth_pk =
       \<lparr>self_mask = mask', self_opacity_pk = opac_pk, self_smoothness_pk = smooth_pk,
        \<dots> = mask_visual.more self\<rparr>"
  by (simp add: get_visual_def set_visual_def)

end
